theory Spec2Isabelle
  imports Main "HOL-Library.Word"
begin

unbundle bit_operations_syntax

section \<open>FFMalloc: a forward-only allocator (src/ffmalloc.c)\<close>

text \<open>
  The model follows the 64-bit Linux build of \<^verbatim>\<open>ffmalloc.c\<close> without \<^verbatim>\<open>FF_PROFILE\<close>,
  \<^verbatim>\<open>MARK_SWEEP\<close> and \<^verbatim>\<open>FF_GROWLARGEREALLOC\<close>, executed by one thread. Addresses and
  \<^verbatim>\<open>size_t\<close> values are 64-bit words, so every addition wraps as the machine's does.
  The compile-time choice \<^verbatim>\<open>FF_EIGHTBYTEALIGN\<close> is the parameter \<open>build\<close>.
\<close>

subsection \<open>Library constants and alignment macros\<close>

type_synonym addr = "64 word"
type_synonym size_t = "64 word"

datatype build = EightByteAlign | SixteenByteAlign

definition POOL_SIZE_BITS :: nat where "POOL_SIZE_BITS = 21"
definition POOL_SIZE :: size_t where "POOL_SIZE = push_bit POOL_SIZE_BITS 1"
definition PAGE_SIZE :: size_t where "PAGE_SIZE = 4096"
definition HALF_PAGE :: size_t where "HALF_PAGE = 2048"
definition SIZE_MAX :: size_t where "SIZE_MAX = - 1"
definition MIN_PAGES_TO_FREE :: size_t where "MIN_PAGES_TO_FREE = 1"
definition MAX_LARGE_LISTS :: nat where "MAX_LARGE_LISTS = 8"
definition MAX_POOLS_PER_LIST :: nat where "MAX_POOLS_PER_LIST = 16"
definition PAGES_PER_REFILL :: nat where "PAGES_PER_REFILL = 128"
definition ROOT_BITS :: nat where "ROOT_BITS = 8"
definition STEM_COUNT :: nat where "STEM_COUNT = 2 ^ ROOT_BITS"
definition STEM_BITS :: nat where "STEM_BITS = 8"
definition LEAVES_PER_STEM :: size_t where "LEAVES_PER_STEM = push_bit STEM_BITS 1"
definition LEAF_BITS :: nat where "LEAF_BITS = 48 - ROOT_BITS - STEM_BITS - POOL_SIZE_BITS"
definition POOLS_PER_LEAF :: size_t where "POOLS_PER_LEAF = push_bit LEAF_BITS 1"

definition ENOMEM :: nat where "ENOMEM = 12"
definition EEXIST :: nat where "EEXIST = 17"
definition EINVAL :: nat where "EINVAL = 22"

fun MIN_ALIGNMENT :: "build \<Rightarrow> size_t" where
  "MIN_ALIGNMENT EightByteAlign = 8"
| "MIN_ALIGNMENT SixteenByteAlign = 16"

fun BIN_COUNT :: "build \<Rightarrow> nat" where
  "BIN_COUNT EightByteAlign = 45"
| "BIN_COUNT SixteenByteAlign = 32"

fun BIN_INFLECTION :: "build \<Rightarrow> nat" where
  "BIN_INFLECTION EightByteAlign = 19"
| "BIN_INFLECTION SixteenByteAlign = 13"

text \<open>\<^verbatim>\<open>ALIGN_SIZE(SIZE)\<close>: round up to the build's alignment; the addition wraps.\<close>

fun ALIGN_SIZE :: "build \<Rightarrow> size_t \<Rightarrow> size_t" where
  "ALIGN_SIZE EightByteAlign sz = (sz + 7) AND NOT 7"
| "ALIGN_SIZE SixteenByteAlign sz = (if sz \<le> 8 then 8 else (sz + 15) AND NOT 15)"

text \<open>\<^verbatim>\<open>GET_BIN(SIZE)\<close>. The divisor is never zero where the macro is used with \<open>sz > 208\<close>.\<close>

fun GET_BIN :: "build \<Rightarrow> size_t \<Rightarrow> nat" where
  "GET_BIN EightByteAlign sz =
     (if sz \<le> 208 then BIN_COUNT EightByteAlign - unat (drop_bit 3 sz) else unat (PAGE_SIZE div sz))"
| "GET_BIN SixteenByteAlign sz =
     (if sz \<le> 8 then 0
      else if sz \<le> 304 then BIN_COUNT SixteenByteAlign - unat (drop_bit 4 sz)
      else unat (PAGE_SIZE div sz))"

definition ALIGN_TO :: "64 word \<Rightarrow> 64 word \<Rightarrow> 64 word" where
  "ALIGN_TO v a = (v + (a - 1)) AND NOT (a - 1)"

text \<open>\<^verbatim>\<open>__builtin_popcountl\<close> and \<^verbatim>\<open>__builtin_clzl\<close> (the latter is undefined at 0 in C;
  the callers below never pass 0).\<close>

definition FFPOPCOUNT64 :: "64 word \<Rightarrow> nat" where
  "FFPOPCOUNT64 w = length (filter (bit w) [0..<64])"

definition FFCOUNTLEADINGZEROS64 :: "64 word \<Rightarrow> nat" where
  "FFCOUNTLEADINGZEROS64 w = length (takeWhile (\<lambda>i. \<not> bit w i) (rev [0..<64]))"

subsection \<open>Faults\<close>

text \<open>
  Every way in which a call does not return to its caller is a value: \<open>Abort\<close> is a call of
  \<^verbatim>\<open>abort()\<close> (with the diagnostic printed before it), \<open>DivisionByZero\<close> an integer division
  whose divisor is 0, \<open>OutOfBounds\<close> an array access outside the array, \<open>WildPointer\<close> a
  dereference of a pointer that was never set, \<open>Hang\<close> a loop that never ends.
\<close>

datatype fault = Abort string | DivisionByZero | OutOfBounds | WildPointer | Hang

subsection \<open>The operating system\<close>

text \<open>
  The answers of the kernel are an environment: what \<^verbatim>\<open>mmap\<close> with
  \<^verbatim>\<open>MAP_FIXED_NOREPLACE\<close> says for an address and a size, what \<^verbatim>\<open>munmap\<close> says, where the
  program break is, and on which CPU the thread runs. The metadata pool lies where
  \<^verbatim>\<open>mmap(NULL, ...)\<close> puts it: \<open>os_md_pool p\<close> is the address of the pool descriptor \<open>p\<close> in
  it, and \<open>os_md_chunk k d\<close> the address of the freed chunk that lies \<open>d\<close> places above the
  bottom of the free list of bin \<open>k\<close>.
\<close>

datatype mmap_result = MAP_OK | MAP_EEXIST | MAP_ERR
datatype munmap_result = UNMAP_OK | UNMAP_ENOMEM | UNMAP_ERR

record os_env =
  os_mmap :: "addr \<Rightarrow> size_t \<Rightarrow> mmap_result"
  os_munmap :: "addr \<Rightarrow> size_t \<Rightarrow> munmap_result"
  os_sbrk0 :: addr
  os_cpu :: int
  os_md_pool :: "nat \<Rightarrow> addr"
  os_md_chunk :: "nat \<Rightarrow> nat \<Rightarrow> addr"

text \<open>
  The retry loop of \<^verbatim>\<open>os_alloc_highwater\<close>: on \<^verbatim>\<open>EEXIST\<close> the high-water mark is advanced by
  \<^verbatim>\<open>POOL_SIZE\<close> (fetch-and-add) and the mapping is tried at the old mark. The loop has no bound
  in the source; a run that never ends is \<open>None\<close>. The result is the mapped address
  (\<open>None\<close> for \<^verbatim>\<open>MAP_FAILED\<close>) and the new high-water mark.
\<close>

partial_function (option) mmap_retry ::
  "(addr \<Rightarrow> size_t \<Rightarrow> mmap_result) \<Rightarrow> size_t \<Rightarrow> addr \<Rightarrow> addr \<Rightarrow> (addr option \<times> addr) option"
where
  "mmap_retry mm sz localHigh hw =
     (case mm localHigh sz of
        MAP_OK \<Rightarrow> Some (Some localHigh, hw)
      | MAP_EEXIST \<Rightarrow> mmap_retry mm sz hw (hw + POOL_SIZE)
      | MAP_ERR \<Rightarrow> Some (None, hw))"

declare mmap_retry.simps [code]

text \<open>\<^verbatim>\<open>os_alloc_highwater(size)\<close> on the high-water mark alone:
  \<^verbatim>\<open>localHigh = FFAtomicExchangeAdvancePtr(poolHighWater, size)\<close>, then the loop.\<close>

definition os_alloc_highwater_hw ::
  "os_env \<Rightarrow> addr \<Rightarrow> size_t \<Rightarrow> (addr option \<times> addr) option" where
  "os_alloc_highwater_hw e hw sz = mmap_retry (os_mmap e) sz hw (hw + sz)"


subsection \<open>Metadata structures\<close>

text \<open>
  \<^verbatim>\<open>union bitmap_t\<close>: one 64-bit word, or a pointer to an array of words. Arrays in metadata
  memory are functions from the index. \<^verbatim>\<open>ffpoolmetadata_alloc\<close> clears what it hands out
  (\<^verbatim>\<open>memset\<close>), so a new tracking array is \<open>\<lambda>_. 0\<close>. \<^verbatim>\<open>ffmetadata_alloc\<close> does not: its
  \<^verbatim>\<open>memset\<close> is commented out, and only memory taken from the top of the metadata pool is
  zero; a recycled chunk is handed out as it was freed (see below).
\<close>

datatype bitmap_t = Single "64 word" | Array "nat \<Rightarrow> 64 word"

record pagemap_t =
  pm_start :: addr
  allocSize :: size_t
  bitmap :: bitmap_t

definition zero_pagemap :: pagemap_t where
  "zero_pagemap = \<lparr>pm_start = 0, allocSize = 0, bitmap = Single 0\<rparr>"

text \<open>\<^verbatim>\<open>union tracking_t\<close>: page maps (small pool), allocation boundaries (large pool), or
  \<^verbatim>\<open>NULL\<close>.\<close>

datatype tracking_t = NoTracking | PageMaps "nat \<Rightarrow> pagemap_t" | Allocations "nat \<Rightarrow> 64 word"

record pagepool_t =
  pool_start :: addr
  pool_end :: addr
  nextFreePage :: addr
  tracking :: tracking_t
  nextFreeIndex :: size_t
  startInUse :: addr
  endInUse :: addr

definition zero_pool :: pagepool_t where
  "zero_pool = \<lparr>pool_start = 0, pool_end = 0, nextFreePage = 0, tracking = NoTracking,
                 nextFreeIndex = 0, startInUse = 0, endInUse = 0\<rparr>"

text \<open>A pointer to a page map is the pool it belongs to and its index in that pool's array.\<close>

record bin_t =
  nextAlloc :: addr
  bin_allocSize :: size_t
  allocCount :: size_t
  maxAlloc :: size_t
  page :: "(nat \<times> nat) option"

definition zero_bin :: bin_t where
  "zero_bin = \<lparr>nextAlloc = 0, bin_allocSize = 0, allocCount = 0, maxAlloc = 0, page = None\<rparr>"

record threadcache_t =
  bins :: "nat \<Rightarrow> bin_t"
  unusedPool :: nat
  nextUnusedPage :: nat
  endUnusedPage :: nat

record radixleaf_t =
  poolStart :: "nat \<Rightarrow> nat option"
  poolEnd :: "nat \<Rightarrow> nat option"

definition zero_leaf :: radixleaf_t where
  "zero_leaf = \<lparr>poolStart = (\<lambda>_. None), poolEnd = (\<lambda>_. None)\<rparr>"

type_synonym radixstem_t = "nat \<Rightarrow> radixleaf_t option"
type_synonym radixroot_t = "nat \<Rightarrow> radixstem_t option"

text \<open>
  The library globals and the default arena \<^verbatim>\<open>arenas[0]\<close>. Pool descriptors live in the
  store \<open>pools\<close>; a pointer to a pool is its key. The linked pool lists are lists of keys,
  head first. The nodes of a large pool list get their \<^verbatim>\<open>next\<close> field from nobody (it is
  assigned under \<^verbatim>\<open>MARK_SWEEP\<close> only): \<open>largeListOpen i\<close> says that the \<^verbatim>\<open>next\<close> field of
  the last node of list \<open>i\<close> is not \<^verbatim>\<open>NULL\<close>.

  The free lists \<^verbatim>\<open>bins[]\<close> of the metadata allocator: \<open>mdBins k\<close> holds the freed chunks of
  bin \<open>k\<close>, the head first, each chunk as the words it contains. The bin of the pool
  descriptors (no other structure has their size) is the list \<open>mdFreePools\<close> of keys; what a
  freed descriptor contains stays in \<open>pools\<close>.
\<close>

record ffstate =
  isInit :: nat
  errno :: nat
  poolHighWater :: addr
  poolCount :: size_t
  poolTree :: radixroot_t
  pools :: "nat \<Rightarrow> pagepool_t"
  nextPoolId :: nat
  smallPoolList :: "nat list"
  largePoolList :: "nat \<Rightarrow> nat list"
  jumboPoolList :: "nat list"
  tcache :: "threadcache_t option"
  largeListOpen :: "nat \<Rightarrow> bool"
  mdFreePools :: "nat list"
  mdBins :: "nat \<Rightarrow> (nat \<Rightarrow> 64 word) list"

definition bindF :: "fault + 'a \<Rightarrow> ('a \<Rightarrow> fault + 'b) \<Rightarrow> fault + 'b" where
  "bindF m f = (case m of Inl e \<Rightarrow> Inl e | Inr x \<Rightarrow> f x)"

text \<open>
  \<^verbatim>\<open>ffmetadata_alloc(size)\<close> and \<^verbatim>\<open>ffmetadata_free(ptr, size)\<close>. The bin of a size is
  \<^verbatim>\<open>(size >> 4) - 1\<close> after rounding to 16. A chunk comes from the head of the free list of
  its bin when there is one, with the words it was freed with, and from the top of the
  metadata pool otherwise. Freeing a chunk stores the link to the former head of the list in
  its first word (\<^verbatim>\<open>struct usedmd_t\<close>).
\<close>

definition md_bin :: "size_t \<Rightarrow> nat" where
  "md_bin sz = (if 4096 \<le> ALIGN_TO sz 16 then 255 else unat (drop_bit 4 (ALIGN_TO sz 16) - 1))"

definition ffmetadata_alloc :: "ffstate \<Rightarrow> size_t \<Rightarrow> (nat \<Rightarrow> 64 word) \<times> ffstate" where
  "ffmetadata_alloc st sz =
     (case mdBins st (md_bin sz) of
        [] \<Rightarrow> (\<lambda>_. 0, st)
      | c # cs \<Rightarrow> (c, st\<lparr>mdBins := (mdBins st)(md_bin sz := cs)\<rparr>))"

definition ffmetadata_free :: "os_env \<Rightarrow> ffstate \<Rightarrow> (nat \<Rightarrow> 64 word) \<Rightarrow> size_t \<Rightarrow> ffstate" where
  "ffmetadata_free e st c sz =
     (let k = md_bin sz; l = mdBins st k;
          link = (if l = [] then 0 else os_md_chunk e k (length l - 1))
      in st\<lparr>mdBins := (mdBins st)(k := c(0 := link) # l)\<rparr>)"

text \<open>\<^verbatim>\<open>sizeof(struct poollistnode_t)\<close>; the first word of a node is its \<^verbatim>\<open>next\<close> field.\<close>

definition NODE_SIZE :: size_t where "NODE_SIZE = 16"

text \<open>
  \<^verbatim>\<open>ffmetadata_alloc(sizeof(struct pagepool_t))\<close>: the descriptor freed last, with the fields
  it was freed with, or a fresh one, whose fields are 0.
  \<^verbatim>\<open>ffmetadata_free(pool, sizeof(struct pagepool_t))\<close> stores the link in the first word of
  the descriptor, which is its field \<^verbatim>\<open>start\<close>.
\<close>

definition new_pool :: "ffstate \<Rightarrow> nat \<times> ffstate" where
  "new_pool st =
     (case mdFreePools st of
        [] \<Rightarrow> (nextPoolId st,
               st\<lparr>pools := (pools st)(nextPoolId st := zero_pool), nextPoolId := nextPoolId st + 1\<rparr>)
      | p # ps \<Rightarrow> (p, st\<lparr>mdFreePools := ps\<rparr>))"

definition free_pool :: "os_env \<Rightarrow> ffstate \<Rightarrow> nat \<Rightarrow> ffstate" where
  "free_pool e st p =
     st\<lparr>pools := (pools st)(p := (pools st p)\<lparr>pool_start :=
                    (case mdFreePools st of [] \<Rightarrow> 0 | q # _ \<Rightarrow> os_md_pool e q)\<rparr>),
        mdFreePools := p # mdFreePools st\<rparr>"

definition upd_pool :: "nat \<Rightarrow> (pagepool_t \<Rightarrow> pagepool_t) \<Rightarrow> ffstate \<Rightarrow> ffstate" where
  "upd_pool p f st = st\<lparr>pools := (pools st)(p := f (pools st p))\<rparr>"

text \<open>\<^verbatim>\<open>os_alloc_highwater\<close> on the state. \<open>None\<close> is \<^verbatim>\<open>MAP_FAILED\<close>.\<close>

definition os_alloc_highwater :: "os_env \<Rightarrow> ffstate \<Rightarrow> size_t \<Rightarrow> fault + (addr option \<times> ffstate)" where
  "os_alloc_highwater e st sz =
     (case os_alloc_highwater_hw e (poolHighWater st) sz of
        None \<Rightarrow> Inl Hang
      | Some (r, hw) \<Rightarrow> Inr (r, st\<lparr>poolHighWater := hw\<rparr>))"

subsection \<open>Radix tree\<close>

definition stemIndex :: "addr \<Rightarrow> nat" where
  "stemIndex ptr = unat (drop_bit (POOL_SIZE_BITS + LEAF_BITS + STEM_BITS) ptr)"

definition leafIndex :: "addr \<Rightarrow> nat" where
  "leafIndex ptr = unat (drop_bit (POOL_SIZE_BITS + LEAF_BITS) ptr AND (LEAVES_PER_STEM - 1))"

definition poolIndex :: "addr \<Rightarrow> nat" where
  "poolIndex ptr = unat (drop_bit POOL_SIZE_BITS ptr AND (POOLS_PER_LEAF - 1))"

definition find_leaf :: "radixroot_t \<Rightarrow> addr \<Rightarrow> radixleaf_t option" where
  "find_leaf t ptr = (case t (stemIndex ptr) of None \<Rightarrow> None | Some stem \<Rightarrow> stem (leafIndex ptr))"

text \<open>\<^verbatim>\<open>find_pool_for_ptr\<close>. \<^verbatim>\<open>poolTree.stems\<close> has \<^verbatim>\<open>STEM_COUNT\<close> entries and the stem index
  is not masked, so an address of 48 bits or more reads outside the array.\<close>

definition find_pool_for_ptr :: "ffstate \<Rightarrow> addr \<Rightarrow> fault + nat option" where
  "find_pool_for_ptr st ptr =
     (if STEM_COUNT \<le> stemIndex ptr then Inl OutOfBounds
      else case find_leaf (poolTree st) ptr of
        None \<Rightarrow> Inr None
      | Some leaf \<Rightarrow>
          (case poolStart leaf (poolIndex ptr) of
             Some p \<Rightarrow>
               if pool_start (pools st p) \<le> ptr then Inr (Some p)
               else (case poolEnd leaf (poolIndex ptr) of
                       Some q \<Rightarrow> if ptr < pool_end (pools st q) then Inr (Some q) else Inr None
                     | None \<Rightarrow> Inr None)
           | None \<Rightarrow>
               (case poolEnd leaf (poolIndex ptr) of
                  Some q \<Rightarrow> if ptr < pool_end (pools st q) then Inr (Some q) else Inr None
                | None \<Rightarrow> Inr None)))"

text \<open>The nodes on the path of an address, created when missing.\<close>

definition ensure_leaf :: "radixroot_t \<Rightarrow> addr \<Rightarrow> radixroot_t" where
  "ensure_leaf t a =
     (let stem = (case t (stemIndex a) of None \<Rightarrow> (\<lambda>_. None) | Some s \<Rightarrow> s);
          leaf = (case stem (leafIndex a) of None \<Rightarrow> zero_leaf | Some l \<Rightarrow> l)
      in t(stemIndex a := Some (stem(leafIndex a := Some leaf))))"

definition upd_leaf :: "radixroot_t \<Rightarrow> addr \<Rightarrow> (radixleaf_t \<Rightarrow> radixleaf_t) \<Rightarrow> fault + radixroot_t" where
  "upd_leaf t a f =
     (case t (stemIndex a) of
        None \<Rightarrow> Inl WildPointer
      | Some stem \<Rightarrow>
          (case stem (leafIndex a) of
             None \<Rightarrow> Inl WildPointer
           | Some leaf \<Rightarrow> Inr (t(stemIndex a := Some (stem(leafIndex a := Some (f leaf)))))))"

definition set_poolStart :: "nat option \<Rightarrow> addr \<Rightarrow> radixleaf_t \<Rightarrow> radixleaf_t" where
  "set_poolStart v a leaf = leaf\<lparr>poolStart := (poolStart leaf)(poolIndex a := v)\<rparr>"

definition set_poolEnd :: "nat option \<Rightarrow> addr \<Rightarrow> radixleaf_t \<Rightarrow> radixleaf_t" where
  "set_poolEnd v a leaf = leaf\<lparr>poolEnd := (poolEnd leaf)(poolIndex a := v)\<rparr>"

definition add_pool_to_tree :: "ffstate \<Rightarrow> nat \<Rightarrow> fault + ffstate" where
  "add_pool_to_tree st p =
     (let s = pool_start (pools st p); e = pool_end (pools st p)
      in if STEM_COUNT \<le> stemIndex s \<or> STEM_COUNT \<le> stemIndex e then Inl OutOfBounds
         else bindF (upd_leaf (ensure_leaf (ensure_leaf (poolTree st) s) e) s (set_poolStart (Some p) s))
           (\<lambda>t1. bindF (upd_leaf t1 e (set_poolEnd (Some p) e))
           (\<lambda>t2. Inr (st\<lparr>poolTree := t2, poolCount := poolCount st + 1\<rparr>))))"

definition remove_pool_from_tree :: "ffstate \<Rightarrow> nat \<Rightarrow> fault + ffstate" where
  "remove_pool_from_tree st p =
     (let s = pool_start (pools st p); e = pool_end (pools st p)
      in if STEM_COUNT \<le> stemIndex s \<or> STEM_COUNT \<le> stemIndex e then Inl OutOfBounds
         else bindF (upd_leaf (poolTree st) s (set_poolStart None s))
           (\<lambda>t1. bindF (upd_leaf t1 e (set_poolEnd None e))
           (\<lambda>t2. Inr (st\<lparr>poolTree := t2, poolCount := poolCount st - 1\<rparr>))))"

subsection \<open>Pool creation\<close>

text \<open>The three creation functions return \<open>False\<close> for \<^verbatim>\<open>-1\<close>.\<close>

definition create_pagepool :: "os_env \<Rightarrow> ffstate \<Rightarrow> nat \<Rightarrow> fault + (bool \<times> ffstate)" where
  "create_pagepool e st p =
     bindF (os_alloc_highwater e st POOL_SIZE) (\<lambda>(r, st1).
       case r of
         None \<Rightarrow> Inr (False, st1)
       | Some poolReserve \<Rightarrow>
           Inr (True, upd_pool p (\<lambda>pl. pl\<lparr>tracking := PageMaps (\<lambda>_. zero_pagemap),
                  pool_start := poolReserve, nextFreePage := poolReserve,
                  pool_end := poolReserve + POOL_SIZE, startInUse := poolReserve,
                  endInUse := poolReserve + POOL_SIZE, nextFreeIndex := SIZE_MAX\<rparr>) st1))"

definition create_largepagepool :: "os_env \<Rightarrow> ffstate \<Rightarrow> nat \<Rightarrow> fault + (bool \<times> ffstate)" where
  "create_largepagepool e st p =
     bindF (os_alloc_highwater e st POOL_SIZE) (\<lambda>(r, st1).
       case r of
         None \<Rightarrow> Inr (False, st1)
       | Some storage \<Rightarrow>
           Inr (True, upd_pool p (\<lambda>pl. pl\<lparr>tracking := Allocations ((\<lambda>_. 0)(0 := storage)),
                  pool_start := storage, pool_end := storage + POOL_SIZE,
                  nextFreePage := storage, startInUse := storage,
                  endInUse := storage + POOL_SIZE\<rparr>) st1))"

definition create_jumbopool :: "os_env \<Rightarrow> ffstate \<Rightarrow> nat \<Rightarrow> size_t \<Rightarrow> fault + (bool \<times> ffstate)" where
  "create_jumbopool e st p sz =
     (let st0 = upd_pool p (\<lambda>pl. pl\<lparr>tracking := NoTracking, nextFreeIndex := SIZE_MAX - 1\<rparr>) st;
          sz' = ALIGN_TO sz PAGE_SIZE
      in bindF (os_alloc_highwater e st0 sz') (\<lambda>(r, st1).
           case r of
             None \<Rightarrow> Inr (False, st1)
           | Some storage \<Rightarrow>
               Inr (True, upd_pool p (\<lambda>pl. pl\<lparr>pool_start := storage, pool_end := storage + sz'\<rparr>) st1)))"


subsection \<open>Thread cache and small allocations\<close>

definition POOL_PAGES :: nat where "POOL_PAGES = unat (POOL_SIZE div PAGE_SIZE)"

definition REFILL_BYTES :: size_t where "REFILL_BYTES = word_of_nat PAGES_PER_REFILL * PAGE_SIZE"

definition pageMaps_of :: "pagepool_t \<Rightarrow> (nat \<Rightarrow> pagemap_t) option" where
  "pageMaps_of pl = (case tracking pl of PageMaps pm \<Rightarrow> Some pm | _ \<Rightarrow> None)"

definition allocations_of :: "pagepool_t \<Rightarrow> (nat \<Rightarrow> 64 word) option" where
  "allocations_of pl = (case tracking pl of Allocations arr \<Rightarrow> Some arr | _ \<Rightarrow> None)"

text \<open>\<^verbatim>\<open>FFAtomicExchangeAdvancePtr(pool->nextFreePage, PAGES_PER_REFILL * PAGE_SIZE)\<close>.\<close>

definition take_pages :: "ffstate \<Rightarrow> nat \<Rightarrow> addr \<times> ffstate" where
  "take_pages st p =
     (nextFreePage (pools st p),
      upd_pool p (\<lambda>pl. pl\<lparr>nextFreePage := nextFreePage pl + REFILL_BYTES\<rparr>) st)"

text \<open>The \<^verbatim>\<open>while\<close> loop of \<^verbatim>\<open>assign_pages_to_tcache\<close>: while the range taken does not fit in
  the pool, a new small pool is put at the head of the list (one thread: the pool at hand is
  always the head) and pages are taken from it. The new list node gets both its fields
  assigned.\<close>

partial_function (option) assign_pages_loop ::
  "os_env \<Rightarrow> ffstate \<Rightarrow> nat \<Rightarrow> addr \<Rightarrow> (fault + (nat \<times> addr \<times> ffstate)) option"
where
  "assign_pages_loop e st pool nfp =
     (if nfp + REFILL_BYTES > pool_end (pools st pool) then
        (case smallPoolList st of
           [] \<Rightarrow> Some (Inl WildPointer)
         | hd_pool # rest \<Rightarrow>
            (case (if pool = hd_pool then
                     (let (node, st0) = ffmetadata_alloc st NODE_SIZE;
                          (p, st1) = new_pool st0
                      in bindF (create_pagepool e st1 p) (\<lambda>(ok, st2).
                           if \<not> ok then Inl (Abort ''assign_pages_to_tcache'')
                           else bindF (add_pool_to_tree st2 p) (\<lambda>st3.
                                  Inr (st3\<lparr>smallPoolList := p # smallPoolList st3\<rparr>))))
                   else Inr st) of
               Inl f \<Rightarrow> Some (Inl f)
             | Inr st4 \<Rightarrow>
                (case smallPoolList st4 of
                   [] \<Rightarrow> Some (Inl WildPointer)
                 | pool' # _ \<Rightarrow>
                     assign_pages_loop e (snd (take_pages st4 pool')) pool' (fst (take_pages st4 pool')))))
      else Some (Inr (pool, nfp, st)))"

declare assign_pages_loop.simps [code]

definition assign_pages_to_tcache :: "os_env \<Rightarrow> ffstate \<Rightarrow> fault + ffstate" where
  "assign_pages_to_tcache e st =
     (case tcache st of
        None \<Rightarrow> Inl WildPointer
      | Some tc \<Rightarrow>
        (case smallPoolList st of
           [] \<Rightarrow> Inl WildPointer
         | pool0 # _ \<Rightarrow>
            (case assign_pages_loop e (snd (take_pages st pool0)) pool0 (fst (take_pages st pool0)) of
               None \<Rightarrow> Inl Hang
             | Some (Inl f) \<Rightarrow> Inl f
             | Some (Inr (pool, nfp, st1)) \<Rightarrow>
                (case pageMaps_of (pools st1 pool) of
                   None \<Rightarrow> Inl WildPointer
                 | Some pm \<Rightarrow>
                    (let idx = unat ((nfp - pool_start (pools st1 pool)) div PAGE_SIZE)
                     in if POOL_PAGES < idx + PAGES_PER_REFILL then Inl OutOfBounds
                        else Inr ((upd_pool pool (\<lambda>pl. pl\<lparr>tracking := PageMaps (\<lambda>j.
                                     if idx \<le> j \<and> j < idx + PAGES_PER_REFILL
                                     then (pm j)\<lparr>pm_start := nfp + word_of_nat (j - idx) * PAGE_SIZE\<rparr>
                                     else pm j)\<rparr>) st1)
                                   \<lparr>tcache := Some (tc\<lparr>unusedPool := pool, nextUnusedPage := idx,
                                       endUnusedPage := idx + PAGES_PER_REFILL\<rparr>)\<rparr>))))))"

text \<open>The bins \<^verbatim>\<open>init_tcache\<close> builds: evenly spaced sizes at the top indices, maximally
  packed sizes below \<^verbatim>\<open>BIN_INFLECTION\<close>, and the 8-byte bin 0 of the 16-byte build.\<close>

definition init_bins :: "build \<Rightarrow> nat \<Rightarrow> bin_t" where
  "init_bins b i =
     (if i = 0 \<and> b = SixteenByteAlign then
        \<lparr>nextAlloc = 0, bin_allocSize = 8, allocCount = PAGE_SIZE div 8, maxAlloc = PAGE_SIZE div 8,
         page = None\<rparr>
      else if 1 \<le> i \<and> i < BIN_INFLECTION b then
        \<lparr>nextAlloc = 0, bin_allocSize = (PAGE_SIZE div word_of_nat i) AND NOT (MIN_ALIGNMENT b - 1),
         allocCount = word_of_nat i, maxAlloc = word_of_nat i, page = None\<rparr>
      else if BIN_INFLECTION b \<le> i \<and> i < BIN_COUNT b then
        \<lparr>nextAlloc = 0, bin_allocSize = word_of_nat (BIN_COUNT b - i) * MIN_ALIGNMENT b,
         allocCount = PAGE_SIZE div (word_of_nat (BIN_COUNT b - i) * MIN_ALIGNMENT b),
         maxAlloc = PAGE_SIZE div (word_of_nat (BIN_COUNT b - i) * MIN_ALIGNMENT b), page = None\<rparr>
      else zero_bin)"

definition init_tcache :: "build \<Rightarrow> os_env \<Rightarrow> ffstate \<Rightarrow> fault + ffstate" where
  "init_tcache b e st =
     assign_pages_to_tcache e
       (st\<lparr>tcache := Some \<lparr>bins = init_bins b, unusedPool = 0, nextUnusedPage = 0, endUnusedPage = 0\<rparr>\<rparr>)"

definition get_threadcache :: "build \<Rightarrow> os_env \<Rightarrow> ffstate \<Rightarrow> fault + ffstate" where
  "get_threadcache b e st = (case tcache st of None \<Rightarrow> init_tcache b e st | Some _ \<Rightarrow> Inr st)"

definition upd_page :: "nat \<Rightarrow> nat \<Rightarrow> (pagemap_t \<Rightarrow> pagemap_t) \<Rightarrow> ffstate \<Rightarrow> fault + ffstate" where
  "upd_page p i f st =
     (case pageMaps_of (pools st p) of
        None \<Rightarrow> Inl WildPointer
      | Some pm \<Rightarrow> Inr (upd_pool p (\<lambda>pl. pl\<lparr>tracking := PageMaps (pm(i := f (pm i)))\<rparr>) st))"

definition get_page :: "ffstate \<Rightarrow> nat \<Rightarrow> nat \<Rightarrow> fault + pagemap_t" where
  "get_page st p i = (case pageMaps_of (pools st p) of None \<Rightarrow> Inl WildPointer | Some pm \<Rightarrow> Inr (pm i))"

definition upd_bin :: "nat \<Rightarrow> (bin_t \<Rightarrow> bin_t) \<Rightarrow> threadcache_t \<Rightarrow> threadcache_t" where
  "upd_bin k f tc = tc\<lparr>bins := (bins tc)(k := f (bins tc k))\<rparr>"

text \<open>The first half of \<^verbatim>\<open>ffmalloc_small\<close>: a full (or never used) bin gets the next unused
  page of the thread cache, and a bitmap array from the metadata allocator when the page holds
  more than 64 allocations.\<close>

definition refill_bin :: "os_env \<Rightarrow> ffstate \<Rightarrow> nat \<Rightarrow> fault + ffstate" where
  "refill_bin e st k =
     (case tcache st of
        None \<Rightarrow> Inl WildPointer
      | Some tc0 \<Rightarrow>
         bindF (if endUnusedPage tc0 \<le> nextUnusedPage tc0 then assign_pages_to_tcache e st else Inr st)
          (\<lambda>st1. case tcache st1 of
             None \<Rightarrow> Inl WildPointer
           | Some tc \<Rightarrow>
              (let pp = unusedPool tc; pi = nextUnusedPage tc; bin = bins tc k;
                   bitmapCount = (if maxAlloc bin AND 63 \<noteq> 0 then drop_bit 6 (maxAlloc bin) + 1
                                  else drop_bit 6 (maxAlloc bin));
                   (arr, st1a) = (if maxAlloc bin > 64 then ffmetadata_alloc st1 (bitmapCount * 8)
                                  else (\<lambda>_. 0, st1))
               in bindF (upd_page pp pi (\<lambda>pg. pg\<lparr>allocSize := bin_allocSize bin,
                            bitmap := (if maxAlloc bin > 64 then Array arr else bitmap pg)\<rparr>) st1a)
                   (\<lambda>st2. bindF (get_page st2 pp pi)
                   (\<lambda>pg. Inr (st2\<lparr>tcache := Some (upd_bin k (\<lambda>bn. bn\<lparr>page := Some (pp, pi),
                              allocCount := 0, nextAlloc := pm_start pg\<rparr>)
                              (tc\<lparr>nextUnusedPage := Suc pi\<rparr>))\<rparr>))))))"

text \<open>The second half: set the bit of the slot, hand out \<^verbatim>\<open>nextAlloc\<close>, advance the bin, and
  mark the page full when the last slot is taken.\<close>

definition set_slot_bit :: "size_t \<Rightarrow> size_t \<Rightarrow> bitmap_t \<Rightarrow> bitmap_t option" where
  "set_slot_bit maxA cnt bm =
     (if maxA \<le> 64 then
        (case bm of Single w \<Rightarrow> Some (Single (w OR push_bit (unat cnt) 1)) | Array _ \<Rightarrow> None)
      else
        (case bm of
           Array a \<Rightarrow> Some (Array (a(unat (drop_bit 6 cnt) :=
                         a (unat (drop_bit 6 cnt)) OR push_bit (unat (cnt AND 63)) 1)))
         | Single _ \<Rightarrow> None))"

definition bin_alloc :: "ffstate \<Rightarrow> nat \<Rightarrow> fault + (addr \<times> ffstate)" where
  "bin_alloc st k =
     (case tcache st of
        None \<Rightarrow> Inl WildPointer
      | Some tc \<Rightarrow>
        (let bin = bins tc k
         in case page bin of
              None \<Rightarrow> Inl WildPointer
            | Some (pp, pi) \<Rightarrow>
               bindF (get_page st pp pi) (\<lambda>pg.
                 case set_slot_bit (maxAlloc bin) (allocCount bin) (bitmap pg) of
                   None \<Rightarrow> Inl WildPointer
                 | Some bm \<Rightarrow>
                    bindF (upd_page pp pi (\<lambda>pg. pg\<lparr>bitmap := bm,
                             allocSize := (if allocCount bin + 1 = maxAlloc bin
                                           then allocSize pg OR 4 else allocSize pg)\<rparr>) st)
                      (\<lambda>st1. Inr (nextAlloc bin,
                         st1\<lparr>tcache := Some (upd_bin k (\<lambda>bn. bn\<lparr>nextAlloc := nextAlloc bn + bin_allocSize bn,
                                  allocCount := allocCount bn + 1\<rparr>) tc)\<rparr>)))))"

definition ffmalloc_small :: "build \<Rightarrow> os_env \<Rightarrow> ffstate \<Rightarrow> size_t \<Rightarrow> fault + (addr \<times> ffstate)" where
  "ffmalloc_small b e st sz =
     bindF (get_threadcache b e st) (\<lambda>st1.
       case tcache st1 of
         None \<Rightarrow> Inl WildPointer
       | Some tc \<Rightarrow>
          (let k = GET_BIN b sz
           in if BIN_COUNT b \<le> k then Inl OutOfBounds
              else bindF (if allocCount (bins tc k) = maxAlloc (bins tc k) then refill_bin e st1 k
                          else Inr st1)
                     (\<lambda>st2. bin_alloc st2 k)))"


subsection \<open>Destroying a pool\<close>

text \<open>The loop of \<^verbatim>\<open>destroy_pool\<close> over the page maps of a small pool: the bitmap array of
  every page whose allocation size is below 64 goes back to the metadata allocator. \<open>i\<close> is
  the page, the fourth argument the number of pages still to visit.\<close>

fun free_bitmaps :: "os_env \<Rightarrow> (nat \<Rightarrow> pagemap_t) \<Rightarrow> nat \<Rightarrow> nat \<Rightarrow> ffstate \<Rightarrow> fault + ffstate" where
  "free_bitmaps e pm i 0 st = Inr st"
| "free_bitmaps e pm i (Suc n) st =
     (let asz = allocSize (pm i) AND NOT 7
      in if 0 < asz \<and> asz < 64 then
           (let bitmapCount = (if (PAGE_SIZE div asz) AND 63 \<noteq> 0
                               then drop_bit 6 (PAGE_SIZE div asz) + 1
                               else drop_bit 6 (PAGE_SIZE div asz))
            in case bitmap (pm i) of
                 Array a \<Rightarrow> free_bitmaps e pm (i + 1) n (ffmetadata_free e st a (bitmapCount * 8))
               | Single _ \<Rightarrow> Inl WildPointer)
         else free_bitmaps e pm (i + 1) n st)"

text \<open>\<^verbatim>\<open>destroy_pool\<close>: \<^verbatim>\<open>os_free(pool->start)\<close> looks the pool up again and unmaps it; any failure
  aborts. The bitmap arrays of a small pool go back to the metadata allocator, the tracking
  array to \<^verbatim>\<open>ffpoolmetadata_free\<close> (whose arrays are cleared when they are handed out again);
  the pool leaves the tree. The descriptor is not freed, and the pool stays in its list.\<close>

definition destroy_pool :: "os_env \<Rightarrow> ffstate \<Rightarrow> nat \<Rightarrow> fault + ffstate" where
  "destroy_pool e st p =
     bindF (find_pool_for_ptr st (pool_start (pools st p))) (\<lambda>r.
       case r of
         None \<Rightarrow> Inl (Abort ''os_free'')
       | Some q \<Rightarrow>
          (case os_munmap e (pool_start (pools st q)) (pool_end (pools st q) - pool_start (pools st q)) of
             UNMAP_OK \<Rightarrow>
               (let pl = pools st p
                in if nextFreeIndex pl = SIZE_MAX then
                     (case pageMaps_of pl of
                        None \<Rightarrow> Inl WildPointer
                      | Some pm \<Rightarrow>
                         (let lastPage = (if nextFreePage pl < pool_end pl then nextFreePage pl
                                          else pool_end pl);
                              n = unat ((lastPage - pool_start pl) div PAGE_SIZE)
                          in if POOL_PAGES < n then Inl OutOfBounds
                             else bindF (free_bitmaps e pm 0 n st) (\<lambda>st1. remove_pool_from_tree st1 p)))
                   else remove_pool_from_tree st p)
           | _ \<Rightarrow> Inl (Abort ''destroy_pool'')))"

subsection \<open>Large allocations\<close>

definition LARGE_ENTRIES :: nat where
  "LARGE_ENTRIES = unat ((drop_bit 20 POOL_SIZE * PAGE_SIZE) div 8)"

text \<open>\<^verbatim>\<open>ffmalloc_large_from_pool\<close>, on the pool descriptor. The comparison of the slack with
  \<^verbatim>\<open>HALF_PAGE + MIN_ALIGNMENT\<close> is a signed one (\<^verbatim>\<open>ptrdiff_t\<close>).\<close>

definition ffmalloc_large_from_pool ::
  "build \<Rightarrow> size_t \<Rightarrow> size_t \<Rightarrow> pagepool_t \<Rightarrow> fault + (addr \<times> pagepool_t)" where
  "ffmalloc_large_from_pool b sz alignment pl =
     (case allocations_of pl of
        None \<Rightarrow> Inl WildPointer
      | Some arr \<Rightarrow>
         (let alignedNext = ALIGN_TO (nextFreePage pl) alignment;
              nfp = alignedNext + sz;
              arr1 = (if alignment > MIN_ALIGNMENT b
                      then arr(unat (nextFreeIndex pl) := alignedNext) else arr);
              nfi = nextFreeIndex pl + 1
          in if LARGE_ENTRIES \<le> unat nfi then Inl OutOfBounds
             else if sint (pool_end pl - nfp) < sint (HALF_PAGE + MIN_ALIGNMENT b)
             then Inr (alignedNext, pl\<lparr>nextFreePage := pool_end pl,
                         tracking := Allocations (arr1(unat nfi := pool_end pl)), nextFreeIndex := nfi\<rparr>)
             else Inr (alignedNext, pl\<lparr>nextFreePage := nfp,
                         tracking := Allocations (arr1(unat nfi := nfp)), nextFreeIndex := nfi\<rparr>)))"

fun scan_free_left :: "(nat \<Rightarrow> 64 word) \<Rightarrow> nat \<Rightarrow> nat" where
  "scan_free_left arr 0 = 0"
| "scan_free_left arr (Suc n) = (if arr n AND 3 = 1 then scan_free_left arr n else Suc n)"

function scan_free_right :: "(nat \<Rightarrow> 64 word) \<Rightarrow> nat \<Rightarrow> nat \<Rightarrow> nat" where
  "scan_free_right arr nfi l =
     (if l < nfi \<and> arr (l + 1) AND 3 = 1 then scan_free_right arr nfi (l + 1) else l)"
  by pat_completeness auto
termination
  by (relation "measure (\<lambda>(arr, nfi, l). nfi - l)") auto

function scan_unmapped_right :: "(nat \<Rightarrow> 64 word) \<Rightarrow> nat \<Rightarrow> nat \<Rightarrow> nat" where
  "scan_unmapped_right arr nfi c =
     (if c < nfi \<and> arr (c + 1) AND 2 \<noteq> 0 then scan_unmapped_right arr nfi (c + 1) else c)"
  by pat_completeness auto
termination
  by (relation "measure (\<lambda>(arr, nfi, c). nfi - c)") auto

text \<open>\<^verbatim>\<open>free_large_pointer(pool, index, size)\<close>. \<^verbatim>\<open>allocations[firstFreeIndex - 1]\<close> with
  \<^verbatim>\<open>firstFreeIndex == 0\<close> is a read before the array.\<close>

definition free_large_pointer :: "os_env \<Rightarrow> ffstate \<Rightarrow> nat \<Rightarrow> nat \<Rightarrow> fault + ffstate" where
  "free_large_pointer e st p index =
     (case allocations_of (pools st p) of
        None \<Rightarrow> Inl WildPointer
      | Some arr0 \<Rightarrow>
         (let pl = pools st p;
              nfi = unat (nextFreeIndex pl);
              arr = arr0(index := arr0 index OR 1);
              firstFreeIndex = scan_free_left arr index;
              sfa0 = arr firstFreeIndex AND NOT 3
          in if sfa0 AND (PAGE_SIZE - 1) \<noteq> 0 \<and> firstFreeIndex = 0 then Inl OutOfBounds
             else
              (let startFreeAddr =
                     (if sfa0 AND (PAGE_SIZE - 1) \<noteq> 0 then
                        (if arr (firstFreeIndex - 1) AND 2 \<noteq> 0 then sfa0 AND NOT (PAGE_SIZE - 1)
                         else (sfa0 + PAGE_SIZE) AND NOT (PAGE_SIZE - 1))
                      else sfa0);
                   leftIsFreed =
                     (if sfa0 AND (PAGE_SIZE - 1) \<noteq> 0 then arr (firstFreeIndex - 1) AND 2 \<noteq> 0
                      else firstFreeIndex = 0 \<or> arr (firstFreeIndex - 1) AND 2 \<noteq> 0);
                   lastFreeIndex = scan_free_right arr nfi index;
                   efa0 = arr (lastFreeIndex + 1) AND NOT 7
               in if efa0 = 0 then Inl (Abort ''endFreeAddr == 0 test 1'')
                  else if efa0 AND (PAGE_SIZE - 1) \<noteq> 0 \<and> arr (lastFreeIndex + 1) AND 2 \<noteq> 0
                          \<and> (efa0 + PAGE_SIZE) AND NOT (PAGE_SIZE - 1) = 0
                  then Inl (Abort ''endFreeAddr == 0 test 2'')
                  else
                   (let endFreeAddr =
                          (if efa0 AND (PAGE_SIZE - 1) \<noteq> 0 then
                             (if arr (lastFreeIndex + 1) AND 2 \<noteq> 0
                              then (efa0 + PAGE_SIZE) AND NOT (PAGE_SIZE - 1)
                              else efa0 AND NOT (PAGE_SIZE - 1))
                           else efa0);
                        rightIsFreed =
                          (if efa0 AND (PAGE_SIZE - 1) \<noteq> 0 then arr (lastFreeIndex + 1) AND 2 \<noteq> 0
                           else pool_end pl \<le> efa0 \<or> arr (lastFreeIndex + 1) AND 2 \<noteq> 0);
                        startInUse' =
                          (if startFreeAddr \<le> startInUse pl then
                             (if endFreeAddr < pool_end pl
                              then arr (scan_unmapped_right arr nfi lastFreeIndex + 1) AND NOT 7
                              else pool_end pl)
                           else startInUse pl);
                        st1 = upd_pool p (\<lambda>q. q\<lparr>tracking := Allocations arr, startInUse := startInUse'\<rparr>) st
                    in if endInUse pl \<le> startInUse' \<and> pool_end pl + 4 \<le> arr nfi
                       then destroy_pool e st1 p
                       else if startFreeAddr < endFreeAddr then
                         (if PAGE_SIZE * MIN_PAGES_TO_FREE \<le> endFreeAddr - startFreeAddr
                             \<or> (leftIsFreed \<and> rightIsFreed)
                          then (case os_munmap e startFreeAddr (endFreeAddr - startFreeAddr) of
                                  UNMAP_OK \<Rightarrow>
                                    Inr (upd_pool p (\<lambda>q. q\<lparr>tracking := Allocations (\<lambda>i.
                                           if firstFreeIndex \<le> i \<and> i \<le> lastFreeIndex
                                           then arr i OR 3 else arr i)\<rparr>) st1)
                                | UNMAP_ENOMEM \<Rightarrow> Inr st1
                                | UNMAP_ERR \<Rightarrow> Inl (Abort ''Large pool decommit fail''))
                          else Inr st1)
                       else Inr st1))))"

text \<open>\<^verbatim>\<open>trim_large_pool\<close>: the slack of a retired pool becomes one allocation, which is freed at
  once; the last entry gets the flag 4.\<close>

definition trim_large_pool :: "os_env \<Rightarrow> ffstate \<Rightarrow> nat \<Rightarrow> fault + ffstate" where
  "trim_large_pool e st p =
     (case allocations_of (pools st p) of
        None \<Rightarrow> Inl WildPointer
      | Some arr \<Rightarrow>
         (let pl = pools st p
          in bindF (if arr (unat (nextFreeIndex pl)) < pool_end pl then
                      free_large_pointer e
                        (upd_pool p (\<lambda>q. q\<lparr>nextFreeIndex := nextFreeIndex pl + 1,
                            tracking := Allocations (arr(unat (nextFreeIndex pl + 1) := pool_end pl)),
                            nextFreePage := pool_end pl\<rparr>) st)
                        p (unat (nextFreeIndex pl + 1 - 1))
                    else Inr st)
               (\<lambda>st1. case allocations_of (pools st1 p) of
                  None \<Rightarrow> Inl WildPointer
                | Some arr1 \<Rightarrow>
                   (let n = unat (nextFreeIndex (pools st1 p));
                        st2 = upd_pool p (\<lambda>q. q\<lparr>tracking := Allocations (arr1(n := arr1 n OR 4))\<rparr>) st1
                    in if endInUse (pools st2 p) \<le> startInUse (pools st2 p) then destroy_pool e st2 p
                       else Inr st2))))"

text \<open>\<^verbatim>\<open>get_large_list_index\<close> of the Linux build.\<close>

definition get_large_list_index :: "os_env \<Rightarrow> nat" where
  "get_large_list_index e = (if os_cpu e < 0 then 0 else nat (os_cpu e) mod MAX_LARGE_LISTS)"

text \<open>The search loop of \<^verbatim>\<open>ffmalloc_large\<close>: the first pool of the list with room, and the
  number of pools passed over. When no pool of the list has room the loop reads the \<^verbatim>\<open>next\<close>
  field of the last node: unless it is \<^verbatim>\<open>NULL\<close> the loop goes on in a chunk that is no list
  node, and takes its second word for a pool. The node of a new pool is a chunk of
  \<^verbatim>\<open>ffmetadata_alloc\<close> whose \<^verbatim>\<open>next\<close> field is left as it comes. A pool that could not be
  created gives its descriptor back.\<close>

fun large_search :: "ffstate \<Rightarrow> size_t \<Rightarrow> size_t \<Rightarrow> nat list \<Rightarrow> nat \<Rightarrow> nat option \<times> nat" where
  "large_search st sz alignment [] loopCount = (None, loopCount)"
| "large_search st sz alignment (p # ps) loopCount =
     (if pool_end (pools st p) < ALIGN_TO (nextFreePage (pools st p)) alignment + sz
      then large_search st sz alignment ps (Suc loopCount)
      else (Some p, loopCount))"

definition ffmalloc_large ::
  "build \<Rightarrow> os_env \<Rightarrow> ffstate \<Rightarrow> size_t \<Rightarrow> size_t \<Rightarrow> fault + (addr \<times> ffstate)" where
  "ffmalloc_large b e st sz alignment =
     (let listId = get_large_list_index e; lst = largePoolList st listId
      in case large_search st sz alignment lst 0 of
           (Some p, _) \<Rightarrow>
             bindF (ffmalloc_large_from_pool b sz alignment (pools st p))
               (\<lambda>(a, pl). Inr (a, upd_pool p (\<lambda>_. pl) st))
         | (None, loopCount) \<Rightarrow>
             (case lst of
                [] \<Rightarrow> Inl WildPointer
              | hd_pool # rest \<Rightarrow>
                 if largeListOpen st listId then Inl WildPointer
                 else
                 (let (p, st1) = new_pool st
                  in bindF (create_largepagepool e st1 p) (\<lambda>(ok, st2).
                       if \<not> ok then Inr (0, free_pool e st2 p)
                       else bindF (add_pool_to_tree st2 p) (\<lambda>st3.
                         bindF (ffmalloc_large_from_pool b sz alignment (pools st3 p)) (\<lambda>(a, pl).
                           (let (node, st3a) = ffmetadata_alloc (upd_pool p (\<lambda>_. pl) st3) NODE_SIZE;
                                st4 = st3a\<lparr>largePoolList := (largePoolList st3a)(listId := lst @ [p]),
                                           largeListOpen := (largeListOpen st3a)(listId := (node 0 \<noteq> 0))\<rparr>
                            in if MAX_POOLS_PER_LIST \<le> loopCount then
                                 bindF (trim_large_pool e
                                          (st4\<lparr>largePoolList := (largePoolList st4)(listId := rest @ [p])\<rparr>)
                                          hd_pool)
                                   (\<lambda>st5. Inr (a, st5))
                               else Inr (a, st4))))))))"

subsection \<open>Jumbo allocations\<close>

text \<open>\<^verbatim>\<open>ffmalloc_jumbo\<close>: a descriptor and a list node, then the pool. When the pool cannot be
  created the descriptor and the node go back to the metadata allocator.\<close>

definition ffmalloc_jumbo :: "os_env \<Rightarrow> ffstate \<Rightarrow> size_t \<Rightarrow> fault + (addr \<times> ffstate)" where
  "ffmalloc_jumbo e st sz =
     (let (p, st0) = new_pool st;
          (node, st1) = ffmetadata_alloc st0 NODE_SIZE
      in bindF (create_jumbopool e st1 p sz) (\<lambda>(ok, st2).
           if \<not> ok then Inr (0, (ffmetadata_free e (free_pool e st2 p) node NODE_SIZE)\<lparr>errno := ENOMEM\<rparr>)
           else bindF (add_pool_to_tree st2 p) (\<lambda>st3.
                  Inr (pool_start (pools st3 p), st3\<lparr>jumboPoolList := p # jumboPoolList st3\<rparr>))))"


subsection \<open>Search functions\<close>

text \<open>\<^verbatim>\<open>find_small_ptr\<close>: the index of the page map and the \<^verbatim>\<open>int64_t\<close> result (the slot index,
  or a negative code). The division by the page's allocation size is a division by zero on a
  page that no bin has taken yet.\<close>

definition slot_bit_set :: "size_t \<Rightarrow> 64 word \<Rightarrow> bitmap_t \<Rightarrow> bool option" where
  "slot_bit_set asz index bm =
     (if asz < 64 then
        (case bm of
           Array a \<Rightarrow> Some (a (unat (drop_bit 6 index))
                             AND push_bit (unat (index - push_bit 6 (drop_bit 6 index))) 1 \<noteq> 0)
         | Single _ \<Rightarrow> None)
      else
        (case bm of Single w \<Rightarrow> Some (w AND push_bit (unat index) 1 \<noteq> 0) | Array _ \<Rightarrow> None))"

definition find_small_ptr :: "ffstate \<Rightarrow> nat \<Rightarrow> addr \<Rightarrow> fault + (nat \<times> int)" where
  "find_small_ptr st p ptr =
     (case pageMaps_of (pools st p) of
        None \<Rightarrow> Inl WildPointer
      | Some pm \<Rightarrow>
         (let mapIndex = unat ((ptr - pool_start (pools st p)) div PAGE_SIZE)
          in if POOL_PAGES \<le> mapIndex then Inl OutOfBounds
             else
              (let pg = pm mapIndex; asz = allocSize pg AND NOT 7
               in if asz = 0 then Inl DivisionByZero
                  else if (ptr - pm_start pg) mod asz \<noteq> 0 then Inr (mapIndex, - 2)
                  else (case slot_bit_set (allocSize pg) ((ptr - pm_start pg) div asz) (bitmap pg) of
                          None \<Rightarrow> Inl WildPointer
                        | Some False \<Rightarrow> Inr (mapIndex, if allocSize pg < 64 then - 1 else - 3)
                        | Some True \<Rightarrow> Inr (mapIndex, sint ((ptr - pm_start pg) div asz))))))"

text \<open>The loop of \<^verbatim>\<open>find_large_ptr\<close>. \<^verbatim>\<open>current\<close> is \<^verbatim>\<open>left + (right - left) / 2\<close> at the head
  of every iteration; the loop starts with \<^verbatim>\<open>left = 0\<close>, \<^verbatim>\<open>right = nextFreeIndex\<close> and keeps
  \<^verbatim>\<open>left \<le> right\<close>, so its test \<^verbatim>\<open>left != right\<close> is \<open>left < right\<close>. The result is the size
  (0: not found) and the value left in \<^verbatim>\<open>*metadataIndex\<close>, which the callers initialise to 0.\<close>

function find_large_loop :: "(nat \<Rightarrow> 64 word) \<Rightarrow> nat \<Rightarrow> addr \<Rightarrow> nat \<Rightarrow> nat \<Rightarrow> size_t \<times> nat" where
  "find_large_loop arr nfi ptr left right =
     (if left < right then
        (let current = left + (right - left) div 2
         in if arr current = ptr then
              (if current = nfi then (0, 0)
               else ((arr (current + 1) AND NOT 7) - arr current, current))
            else if ptr < arr current then find_large_loop arr nfi ptr left current
            else find_large_loop arr nfi ptr (current + 1) right)
      else (0, 0))"
  by pat_completeness auto
termination
  by (relation "measure (\<lambda>(arr, nfi, ptr, left, right). right - left)") auto

definition find_large_ptr :: "pagepool_t \<Rightarrow> addr \<Rightarrow> fault + (size_t \<times> nat)" where
  "find_large_ptr pl ptr =
     (case allocations_of pl of
        None \<Rightarrow> Inl WildPointer
      | Some arr \<Rightarrow> Inr (find_large_loop arr (unat (nextFreeIndex pl)) ptr 0 (unat (nextFreeIndex pl))))"

subsection \<open>Freeing small allocations\<close>

text \<open>The two scans of \<^verbatim>\<open>free_page\<close> over the neighbouring page maps: the new boundary
  address, the outermost page of the run, and whether the scan stopped at a page that was
  already returned to the OS.\<close>

fun scan_pages_left :: "(nat \<Rightarrow> pagemap_t) \<Rightarrow> addr \<Rightarrow> addr \<Rightarrow> nat \<Rightarrow> fault + (addr \<times> nat \<times> bool)" where
  "scan_pages_left pm pstart startAddress 0 =
     (if pstart < startAddress then Inl OutOfBounds else Inr (startAddress, 0, False))"
| "scan_pages_left pm pstart startAddress (Suc c) =
     (if pstart < startAddress then
        (if allocSize (pm c) AND 7 = 5 then scan_pages_left pm pstart (startAddress - PAGE_SIZE) c
         else Inr (startAddress, Suc c, allocSize (pm c) AND 7 = 7))
      else Inr (startAddress, Suc c, False))"

function scan_pages_right :: "(nat \<Rightarrow> pagemap_t) \<Rightarrow> addr \<Rightarrow> addr \<Rightarrow> nat \<Rightarrow> fault + (addr \<times> nat \<times> bool)" where
  "scan_pages_right pm pend endAddress c =
     (if endAddress < pend then
        (if POOL_PAGES \<le> c + 1 then Inl OutOfBounds
         else if allocSize (pm (c + 1)) AND 7 = 5
              then scan_pages_right pm pend (endAddress + PAGE_SIZE) (c + 1)
              else Inr (endAddress, c, allocSize (pm (c + 1)) AND 7 = 7))
      else Inr (endAddress, c, False))"
  by pat_completeness auto
termination
  by (relation "measure (\<lambda>(pm, pend, endAddress, c). POOL_PAGES - c)") auto

text \<open>The two \<^verbatim>\<open>for\<close> loops that move \<^verbatim>\<open>startInUse\<close> and \<^verbatim>\<open>endInUse\<close>; each returns the
  index of the page map the loop stops at.\<close>

function advance_start :: "(nat \<Rightarrow> pagemap_t) \<Rightarrow> pagepool_t \<Rightarrow> nat \<Rightarrow> fault + nat" where
  "advance_start pm pl c =
     (if POOL_PAGES \<le> c then Inl OutOfBounds
      else if allocSize (pm c) AND 2 \<noteq> 0 \<and> pm_start (pm c) < endInUse pl
              \<and> pm_start (pm c) + PAGE_SIZE < pool_end pl
           then advance_start pm pl (c + 1)
           else Inr c)"
  by pat_completeness auto
termination
  by (relation "measure (\<lambda>(pm, pl, c). POOL_PAGES - c)") auto

fun retreat_end :: "(nat \<Rightarrow> pagemap_t) \<Rightarrow> pagepool_t \<Rightarrow> nat \<Rightarrow> fault + nat" where
  "retreat_end pm pl 0 =
     (if allocSize (pm 0) AND 2 \<noteq> 0 \<and> startInUse pl \<le> pm_start (pm 0)
         \<and> pool_start pl < pm_start (pm 0)
      then Inl OutOfBounds else Inr 0)"
| "retreat_end pm pl (Suc c) =
     (if allocSize (pm (Suc c)) AND 2 \<noteq> 0 \<and> startInUse pl \<le> pm_start (pm (Suc c))
         \<and> pool_start pl < pm_start (pm (Suc c))
      then (if pm_start (pm c) = 0 then Inr c else retreat_end pm pl c)
      else Inr (Suc c))"

definition free_page :: "os_env \<Rightarrow> ffstate \<Rightarrow> nat \<Rightarrow> nat \<Rightarrow> fault + ffstate" where
  "free_page e st p i =
     (case pageMaps_of (pools st p) of
        None \<Rightarrow> Inl WildPointer
      | Some pm \<Rightarrow>
         (let pl = pools st p
          in bindF (scan_pages_left pm (pool_start pl) (pm_start (pm i)) i)
               (\<lambda>(startAddress, leftmostPage, leftStop).
             bindF (scan_pages_right pm (pool_end pl) (pm_start (pm i) + PAGE_SIZE) i)
               (\<lambda>(endAddress, rightmostPage, rightStop).
               (let leftIsFreed = (leftStop \<or> startAddress = pool_start pl);
                    rightIsFreed = (rightStop \<or> endAddress = pool_end pl)
                in if sint (PAGE_SIZE * MIN_PAGES_TO_FREE) \<le> sint (endAddress - startAddress)
                      \<or> (leftIsFreed \<and> rightIsFreed)
                   then
                    (case os_munmap e startAddress (endAddress - startAddress) of
                       UNMAP_ENOMEM \<Rightarrow> Inr st
                     | UNMAP_ERR \<Rightarrow> Inl (Abort ''Couldn't unmap'')
                     | UNMAP_OK \<Rightarrow>
                        (let pm1 = (\<lambda>j. if leftmostPage \<le> j \<and> j \<le> rightmostPage
                                         then (pm j)\<lparr>allocSize := allocSize (pm j) OR 2\<rparr> else pm j)
                         in bindF (if startAddress \<le> startInUse pl then
                                     bindF (advance_start pm1 pl rightmostPage) (\<lambda>c.
                                       Inr (if pool_start pl < pm_start (pm1 c)
                                            then pl\<lparr>startInUse := pm_start (pm1 c)\<rparr> else pl))
                                   else Inr pl)
                              (\<lambda>pl1.
                            bindF (if endInUse pl1 \<le> endAddress then
                                     bindF (retreat_end pm1 pl1 leftmostPage) (\<lambda>c.
                                       Inr (pl1\<lparr>endInUse := pm_start (pm1 c) + PAGE_SIZE\<rparr>))
                                   else Inr pl1)
                              (\<lambda>pl2.
                              (let st1 = upd_pool p (\<lambda>_. pl2\<lparr>tracking := PageMaps pm1\<rparr>) st
                               in if endInUse pl2 \<le> startInUse pl2 then destroy_pool e st1 p
                                  else Inr st1)))))
                   else Inr st)))))"

definition clear_slot_bit :: "size_t \<Rightarrow> nat \<Rightarrow> bitmap_t \<Rightarrow> bitmap_t option" where
  "clear_slot_bit asz index bm =
     (if asz < 64 then
        (case bm of
           Array a \<Rightarrow> Some (Array (a(index div 64 :=
                         a (index div 64) AND NOT (push_bit (index - (index div 64) * 64) 1))))
         | Single _ \<Rightarrow> None)
      else
        (case bm of Single w \<Rightarrow> Some (Single (w AND NOT (push_bit index 1))) | Array _ \<Rightarrow> None))"

text \<open>Whether every word of the page's bitmap is 0 (the \<^verbatim>\<open>for\<close> loop that ORs the words of
  the array, or the test of the single word).\<close>

definition bitmap_empty :: "size_t \<Rightarrow> bitmap_t \<Rightarrow> bool" where
  "bitmap_empty asz bm =
     (case bm of
        Single w \<Rightarrow> w = 0
      | Array a \<Rightarrow>
          (let slots = PAGE_SIZE div (asz AND NOT 7);
               bitmaps = unat (drop_bit 6 slots) + (if slots AND 63 \<noteq> 0 then 1 else 0)
           in list_all (\<lambda>i. a i = 0) [0..<bitmaps]))"

definition free_small_ptr :: "os_env \<Rightarrow> ffstate \<Rightarrow> nat \<Rightarrow> nat \<Rightarrow> nat \<Rightarrow> fault + ffstate" where
  "free_small_ptr e st p i index =
     bindF (get_page st p i) (\<lambda>pg.
       case clear_slot_bit (allocSize pg) index (bitmap pg) of
         None \<Rightarrow> Inl WildPointer
       | Some bm \<Rightarrow>
          (if allocSize pg AND NOT 7 = 0 \<and> allocSize pg < 64 \<and> allocSize pg AND 4 \<noteq> 0
           then Inl DivisionByZero
           else if allocSize pg AND 4 \<noteq> 0 \<and> bitmap_empty (allocSize pg) bm then
             bindF (upd_page p i (\<lambda>g. g\<lparr>bitmap := bm, allocSize := allocSize g OR 1\<rparr>) st)
               (\<lambda>st1. free_page e st1 p i)
           else upd_page p i (\<lambda>g. g\<lparr>bitmap := bm\<rparr>) st))"


subsection \<open>Initialisation\<close>

text \<open>The loop of \<^verbatim>\<open>create_arena\<close> over the large pool lists; \<open>i\<close> is the list, the third
  argument the number of lists still to create. \<^verbatim>\<open>initialize\<close> aborts when \<^verbatim>\<open>create_arena\<close>
  fails.\<close>

fun create_large_lists :: "os_env \<Rightarrow> nat \<Rightarrow> nat \<Rightarrow> ffstate \<Rightarrow> fault + ffstate" where
  "create_large_lists e i 0 st = Inr st"
| "create_large_lists e i (Suc n) st =
     (let (p, st1) = new_pool st
      in bindF (create_largepagepool e st1 p) (\<lambda>(ok, st2).
           if \<not> ok then Inl (Abort ''initialize'')
           else bindF (add_pool_to_tree st2 p) (\<lambda>st3.
                  (let (node, st4) = ffmetadata_alloc st3 NODE_SIZE
                   in create_large_lists e (i + 1) n
                        (st4\<lparr>largePoolList := (largePoolList st4)(i := [p]),
                             largeListOpen := (largeListOpen st4)(i := (node 0 \<noteq> 0))\<rparr>)))))"

definition initialize :: "os_env \<Rightarrow> ffstate \<Rightarrow> fault + ffstate" where
  "initialize e st =
     (let st0 = st\<lparr>isInit := 2, poolHighWater := os_sbrk0 e + 0x40000000\<rparr>;
          (node, st0a) = ffmetadata_alloc st0 NODE_SIZE;
          (p, st1) = new_pool st0a
      in bindF (create_pagepool e st1 p) (\<lambda>(ok, st2).
           if \<not> ok then Inl (Abort ''initialize'')
           else bindF (add_pool_to_tree st2 p) (\<lambda>st3.
                  bindF (create_large_lists e 0 MAX_LARGE_LISTS (st3\<lparr>smallPoolList := [p]\<rparr>))
                    (\<lambda>st4. Inr (st4\<lparr>isInit := 1\<rparr>)))))"

text \<open>The state of the process before the library is initialised.\<close>

definition boot :: ffstate where
  "boot = \<lparr>isInit = 0, errno = 0, poolHighWater = 0, poolCount = 0, poolTree = (\<lambda>_. None),
           pools = (\<lambda>_. zero_pool), nextPoolId = 0, smallPoolList = [], largePoolList = (\<lambda>_. []),
           jumboPoolList = [], tcache = None, largeListOpen = (\<lambda>_. False), mdFreePools = [],
           mdBins = (\<lambda>_. [])\<rparr>"

subsection \<open>Public API\<close>

text \<open>A returned pointer is an address; \<^verbatim>\<open>NULL\<close> is 0.\<close>

definition ffmalloc :: "build \<Rightarrow> os_env \<Rightarrow> ffstate \<Rightarrow> size_t \<Rightarrow> fault + (addr \<times> ffstate)" where
  "ffmalloc b e st size0 =
     (if isInit st = 2 then Inl (Abort ''ffmalloc'')
      else bindF (if isInit st = 0 then initialize e st else Inr st) (\<lambda>st1.
        (let sz1 = (if size0 = 0 then 8 else size0)
         in if SIZE_MAX - MIN_ALIGNMENT b < sz1 then Inr (0, st1\<lparr>errno := ENOMEM\<rparr>)
            else
             (let sz = ALIGN_SIZE b sz1
              in bindF (if sz \<le> HALF_PAGE then ffmalloc_small b e st1 sz
                        else if sz < POOL_SIZE - HALF_PAGE then ffmalloc_large b e st1 sz (MIN_ALIGNMENT b)
                        else ffmalloc_jumbo e st1 sz)
                   (\<lambda>(allocation, st2).
                      Inr (allocation, if allocation = 0 then st2\<lparr>errno := ENOMEM\<rparr> else st2))))))"

definition free_jumbo :: "os_env \<Rightarrow> ffstate \<Rightarrow> nat \<Rightarrow> fault + ffstate" where
  "free_jumbo e st p = destroy_pool e st p"

definition fffree :: "os_env \<Rightarrow> ffstate \<Rightarrow> addr \<Rightarrow> fault + ffstate" where
  "fffree e st ptr =
     (if ptr = 0 then Inr st
      else bindF (find_pool_for_ptr st ptr) (\<lambda>r.
        case r of
          None \<Rightarrow> Inl (Abort ''Attempt to free but no matching pool'')
        | Some p \<Rightarrow>
           (if nextFreeIndex (pools st p) < SIZE_MAX - 1 then
              bindF (find_large_ptr (pools st p) ptr) (\<lambda>(sz, index).
                if sz = 0 then Inl (Abort ''free bad large ptr'')
                else free_large_pointer e st p index)
            else if nextFreeIndex (pools st p) = SIZE_MAX - 1 then free_jumbo e st p
            else bindF (find_small_ptr st p ptr) (\<lambda>(mapIndex, index).
                   if index < 0 then Inl (Abort ''free bad ptr'')
                   else free_small_ptr e st p mapIndex (nat index)))))"

text \<open>\<^verbatim>\<open>ffrealloc\<close>. The contents of client memory are not modelled; \<^verbatim>\<open>memcpy\<close> to the result
  of an \<^verbatim>\<open>ffmalloc\<close> that returned \<^verbatim>\<open>NULL\<close> is a write through the null pointer.\<close>

definition ffrealloc :: "build \<Rightarrow> os_env \<Rightarrow> ffstate \<Rightarrow> addr \<Rightarrow> size_t \<Rightarrow> fault + (addr \<times> ffstate)" where
  "ffrealloc b e st ptr size0 =
     (if ptr = 0 then ffmalloc b e st size0
      else if size0 = 0 then bindF (fffree e st ptr) (\<lambda>st1. Inr (0, st1))
      else
       (let sz = ALIGN_SIZE b size0
        in bindF (find_pool_for_ptr st ptr) (\<lambda>r.
          case r of
            None \<Rightarrow> Inl (Abort ''Attempt to realloc but no matching pool'')
          | Some p \<Rightarrow>
             (if nextFreeIndex (pools st p) < SIZE_MAX - 1 then
                bindF (find_large_ptr (pools st p) ptr) (\<lambda>(oldSize, index).
                  if oldSize = 0 then Inl (Abort ''realloc bad large ptr'')
                  else if sz \<le> oldSize then Inr (ptr, st)
                  else bindF (ffmalloc b e st sz) (\<lambda>(temp, st1).
                         if temp = 0 then Inl WildPointer
                         else bindF (free_large_pointer e st1 p index) (\<lambda>st2. Inr (temp, st2))))
              else if nextFreeIndex (pools st p) = SIZE_MAX - 1 then
                (if sz \<le> pool_end (pools st p) - pool_start (pools st p)
                 then Inr (pool_start (pools st p), st)
                 else bindF (ffmalloc b e st sz) (\<lambda>(newJumbo, st1).
                        if newJumbo = 0 then Inr (0, st1\<lparr>errno := ENOMEM\<rparr>)
                        else bindF (free_jumbo e st1 p) (\<lambda>st2. Inr (newJumbo, st2))))
              else
                bindF (find_small_ptr st p ptr) (\<lambda>(mapIndex, index).
                  if index < 0 then Inl (Abort ''realloc bad small ptr'')
                  else bindF (get_page st p mapIndex) (\<lambda>pg.
                    if sz \<le> allocSize pg AND NOT 7 then Inr (ptr, st)
                    else bindF (ffmalloc b e st sz) (\<lambda>(temp, st1).
                           if temp = 0 then Inl WildPointer
                           else bindF (free_small_ptr e st1 p mapIndex (nat index))
                                  (\<lambda>st2. Inr (temp, st2)))))))))"

text \<open>\<^verbatim>\<open>ffreallocarray\<close> tests \<^verbatim>\<open>nmemb\<close> before it divides by it.\<close>

definition ffreallocarray ::
  "build \<Rightarrow> os_env \<Rightarrow> ffstate \<Rightarrow> addr \<Rightarrow> size_t \<Rightarrow> size_t \<Rightarrow> fault + (addr \<times> ffstate)" where
  "ffreallocarray b e st ptr nmemb sz =
     (if nmemb \<noteq> 0 \<and> SIZE_MAX div nmemb < sz then Inr (0, st\<lparr>errno := ENOMEM\<rparr>)
      else ffrealloc b e st ptr (nmemb * sz))"

text \<open>\<^verbatim>\<open>ffcalloc\<close> divides first: \<^verbatim>\<open>size > (SIZE_MAX / nmemb)\<close>.\<close>

definition ffcalloc :: "build \<Rightarrow> os_env \<Rightarrow> ffstate \<Rightarrow> size_t \<Rightarrow> size_t \<Rightarrow> fault + (addr \<times> ffstate)" where
  "ffcalloc b e st nmemb sz =
     (if nmemb = 0 then Inl DivisionByZero
      else if SIZE_MAX div nmemb < sz then Inr (0, st)
      else if isInit st = 2 then Inl (Abort ''ffcalloc'')
      else bindF (if isInit st = 0 then initialize e st else Inr st)
             (\<lambda>st1. ffmalloc b e st1 (nmemb * sz)))"

definition ffmemalign_internal ::
  "build \<Rightarrow> os_env \<Rightarrow> ffstate \<Rightarrow> size_t \<Rightarrow> size_t \<Rightarrow> fault + (addr \<times> ffstate)" where
  "ffmemalign_internal b e st alignment size0 =
     (if size0 \<le> HALF_PAGE \<and> alignment \<le> HALF_PAGE then
        (if size0 \<le> alignment then ffmalloc_small b e st alignment
         else ffmalloc_small b e st (push_bit (64 - FFCOUNTLEADINGZEROS64 (size0 - 1)) 1))
      else
        (let sz = ALIGN_SIZE b size0
         in if POOL_SIZE \<le> sz then ffmalloc_jumbo e st sz
            else ffmalloc_large b e st sz alignment))"


definition ffmemalign ::
  "build \<Rightarrow> os_env \<Rightarrow> ffstate \<Rightarrow> size_t \<Rightarrow> size_t \<Rightarrow> fault + (addr \<times> ffstate)" where
  "ffmemalign b e st alignment size0 =
     (if size0 = 0 \<or> SIZE_MAX - PAGE_SIZE \<le> size0 then Inr (0, st)
      else if FFPOPCOUNT64 alignment \<noteq> 1 then Inr (0, st\<lparr>errno := EINVAL\<rparr>)
      else if alignment \<le> 8 then ffmalloc b e st size0
      else if POOL_SIZE \<le> size0 + PAGE_SIZE \<and> PAGE_SIZE < alignment then Inr (0, st\<lparr>errno := EINVAL\<rparr>)
      else ffmemalign_internal b e st alignment size0)"

definition ffaligned_alloc ::
  "build \<Rightarrow> os_env \<Rightarrow> ffstate \<Rightarrow> size_t \<Rightarrow> size_t \<Rightarrow> fault + (addr \<times> ffstate)" where
  "ffaligned_alloc b e st alignment size0 =
     (if size0 = 0 \<or> SIZE_MAX - PAGE_SIZE \<le> size0 then Inr (0, st)
      else if alignment < 8 \<or> FFPOPCOUNT64 alignment \<noteq> 1 then Inr (0, st\<lparr>errno := EINVAL\<rparr>)
      else if size0 < alignment \<or> size0 mod alignment \<noteq> 0 then Inr (0, st\<lparr>errno := EINVAL\<rparr>)
      else if POOL_SIZE \<le> size0 + PAGE_SIZE \<and> PAGE_SIZE < alignment then Inr (0, st\<lparr>errno := EINVAL\<rparr>)
      else if POOL_SIZE \<le> size0 then ffmalloc_jumbo e st size0
      else if size0 \<le> HALF_PAGE \<and> alignment \<le> HALF_PAGE
      then ffmalloc_small b e st (push_bit (64 - FFCOUNTLEADINGZEROS64 (size0 - 1)) 1)
      else ffmalloc_large b e st size0 alignment)"

definition ffmalloc_usable_size :: "ffstate \<Rightarrow> addr \<Rightarrow> fault + size_t" where
  "ffmalloc_usable_size st ptr =
     (if ptr = 0 then Inr 0
      else bindF (find_pool_for_ptr st ptr) (\<lambda>r.
        case r of
          None \<Rightarrow> Inr 0
        | Some p \<Rightarrow>
           (if nextFreeIndex (pools st p) < SIZE_MAX - 1 then
              bindF (find_large_ptr (pools st p) ptr) (\<lambda>(sz, index). Inr sz)
            else if nextFreeIndex (pools st p) = SIZE_MAX - 1
            then Inr (pool_end (pools st p) - pool_start (pools st p))
            else bindF (find_small_ptr st p ptr) (\<lambda>(mapIndex, index).
                   if index < 0 then Inr 0
                   else bindF (get_page st p mapIndex) (\<lambda>pg. Inr (allocSize pg AND NOT 7))))))"


subsection \<open>A concrete process\<close>

text \<open>
  An environment in the shape of x86-64 Linux: the program break is at 16 MiB, \<^verbatim>\<open>mmap\<close> grants
  every non-empty request that ends below \<open>2\<^sup>4\<^sup>7\<close> and refuses every other one with an error
  that is not \<^verbatim>\<open>EEXIST\<close>, \<^verbatim>\<open>munmap\<close> succeeds, the metadata pool lies at \<open>0x7F0000000000\<close>.
  \<open>demo_init\<close> is the state after \<^verbatim>\<open>initialize()\<close> in that environment.
\<close>

definition demo_env :: os_env where
  "demo_env = \<lparr>os_mmap = (\<lambda>a sz. if sz \<noteq> 0 \<and> a \<le> 0x800000000000 \<and> sz \<le> 0x800000000000 - a
                                    then MAP_OK else MAP_ERR),
               os_munmap = (\<lambda>a sz. UNMAP_OK), os_sbrk0 = 0x1000000, os_cpu = 0,
               os_md_pool = (\<lambda>p. 0x7F0000001000 + word_of_nat p * 112),
               os_md_chunk = (\<lambda>k d. 0x7F0000100000 + word_of_nat k * 0x10000 + word_of_nat d * 64)\<rparr>"

definition demo_init :: ffstate where
  "demo_init = (case initialize demo_env boot of Inr st \<Rightarrow> st | Inl _ \<Rightarrow> boot)"

text \<open>A large pool as \<^verbatim>\<open>create_largepagepool\<close> leaves it.\<close>

definition fresh_large_pool :: "addr \<Rightarrow> pagepool_t" where
  "fresh_large_pool a =
     \<lparr>pool_start = a, pool_end = a + 0x200000, nextFreePage = a,
      tracking = Allocations ((\<lambda>_. 0)(0 := a)), nextFreeIndex = 0,
      startInUse = a, endInUse = a + 0x200000\<rparr>"

text \<open>The result of a call that returned: its value and the state it left.\<close>

definition ret_val :: "fault + ('a \<times> ffstate) \<Rightarrow> 'a option" where
  "ret_val r = (case r of Inl _ \<Rightarrow> None | Inr (a, _) \<Rightarrow> Some a)"

definition ret_state :: "fault + ('a \<times> ffstate) \<Rightarrow> ffstate" where
  "ret_state r = (case r of Inl _ \<Rightarrow> boot | Inr (_, st) \<Rightarrow> st)"

definition state_of :: "fault + ffstate \<Rightarrow> ffstate" where
  "state_of r = (case r of Inl _ \<Rightarrow> boot | Inr st \<Rightarrow> st)"


text \<open>
  Three short runs of that process. In the first a large allocation of 4096 bytes is made at
  \<open>0x41200000\<close> and freed. In the second \<^verbatim>\<open>ffaligned_alloc(8, 2056)\<close> is followed by
  \<^verbatim>\<open>ffmalloc(3000)\<close>. In the third the first request is \<^verbatim>\<open>ffmemalign(8 MiB, 4096)\<close>.
\<close>

definition demo_alloc4096 :: ffstate where
  "demo_alloc4096 = ret_state (ffmalloc SixteenByteAlign demo_env demo_init 0x1000)"

definition demo_freed4096 :: ffstate where
  "demo_freed4096 = state_of (fffree demo_env demo_alloc4096 0x41200000)"

definition demo_odd_size :: ffstate where
  "demo_odd_size = ret_state (ffaligned_alloc SixteenByteAlign demo_env demo_init 8 2056)"

definition demo_after_odd :: ffstate where
  "demo_after_odd = ret_state (ffmalloc SixteenByteAlign demo_env demo_odd_size 3000)"

definition demo_wide_align :: ffstate where
  "demo_wide_align = ret_state (ffmemalign SixteenByteAlign demo_env demo_init 0x800000 0x1000)"

text \<open>The descriptor of large pool 1 along those runs, and of the pool that the third run
  creates.\<close>

definition pool1_alloc4096 :: pagepool_t where
  "pool1_alloc4096 = (fresh_large_pool 0x41200000)\<lparr>nextFreePage := 0x41201000,
      tracking := Allocations ((\<lambda>_. 0)(0 := 0x41200000, 1 := 0x41201000)), nextFreeIndex := 1\<rparr>"

definition pool1_freed4096 :: pagepool_t where
  "pool1_freed4096 = (fresh_large_pool 0x41200000)\<lparr>nextFreePage := 0x41201000,
      tracking := Allocations ((\<lambda>_. 0)(1 := 0x41201000, 0 := 0x41200003)), nextFreeIndex := 1,
      startInUse := 0x41201000\<rparr>"

definition pool1_odd :: pagepool_t where
  "pool1_odd = (fresh_large_pool 0x41200000)\<lparr>nextFreePage := 0x41200808,
      tracking := Allocations ((\<lambda>_. 0)(0 := 0x41200000, 1 := 0x41200808)), nextFreeIndex := 1\<rparr>"

definition pool1_after_odd :: pagepool_t where
  "pool1_after_odd = (fresh_large_pool 0x41200000)\<lparr>nextFreePage := 0x412013D0,
      tracking := Allocations ((\<lambda>_. 0)(0 := 0x41200000, 1 := 0x41200808, 2 := 0x412013D0)),
      nextFreeIndex := 2\<rparr>"

definition pool9_wide :: pagepool_t where
  "pool9_wide = \<lparr>pool_start = 0x42200000, pool_end = 0x42400000, nextFreePage = 0x42400000,
      tracking = Allocations ((\<lambda>_. 0)(0 := 0x42800000, 1 := 0x42400000)), nextFreeIndex = 1,
      startInUse = 0x42200000, endInUse = 0x42400000\<rparr>"

subsection \<open>Alignment of addresses\<close>


subsection \<open>The order of the large metadata\<close>

text \<open>The entries \<^verbatim>\<open>allocations[0..nextFreeIndex]\<close> of a large pool, without their three status
  bits, and whether they increase strictly.\<close>

definition boundaries :: "pagepool_t \<Rightarrow> 64 word list" where
  "boundaries pl =
     (case allocations_of pl of
        None \<Rightarrow> []
      | Some arr \<Rightarrow> map (\<lambda>i. arr i AND NOT 7) [0..<Suc (unat (nextFreeIndex pl))])"

definition boundaries_sorted :: "pagepool_t \<Rightarrow> bool" where
  "boundaries_sorted pl = sorted_wrt (<) (boundaries pl)"


section \<open>Properties\<close>

subsection \<open>Evaluation rules\<close>

lemma bindF_simps [simp]: "bindF (Inl f) g = Inl f" "bindF (Inr x) g = g x"
  by (simp_all add: bindF_def)

lemma new_pool_frame [simp]:
  "poolHighWater (snd (new_pool st)) = poolHighWater st"
  "isInit (snd (new_pool st)) = isInit st"
  "errno (snd (new_pool st)) = errno st"
  "poolTree (snd (new_pool st)) = poolTree st"
  "poolCount (snd (new_pool st)) = poolCount st"
  "smallPoolList (snd (new_pool st)) = smallPoolList st"
  "largePoolList (snd (new_pool st)) = largePoolList st"
  "jumboPoolList (snd (new_pool st)) = jumboPoolList st"
  "tcache (snd (new_pool st)) = tcache st"
  "largeListOpen (snd (new_pool st)) = largeListOpen st"
  "mdBins (snd (new_pool st)) = mdBins st"
  by (simp_all add: new_pool_def split: list.split)

lemma new_pool_pools:
  "pools (snd (new_pool st)) q =
     (if mdFreePools st = [] \<and> q = nextPoolId st then zero_pool else pools st q)"
  by (simp add: new_pool_def split: list.split)

lemma new_pool_fresh:
  "mdFreePools st = [] \<Longrightarrow>
   new_pool st = (nextPoolId st,
     st\<lparr>pools := (pools st)(nextPoolId st := zero_pool), nextPoolId := nextPoolId st + 1\<rparr>)"
  by (simp add: new_pool_def)

lemma ffmetadata_alloc_frame [simp]:
  "poolHighWater (snd (ffmetadata_alloc st sz)) = poolHighWater st"
  "isInit (snd (ffmetadata_alloc st sz)) = isInit st"
  "errno (snd (ffmetadata_alloc st sz)) = errno st"
  "poolTree (snd (ffmetadata_alloc st sz)) = poolTree st"
  "poolCount (snd (ffmetadata_alloc st sz)) = poolCount st"
  "pools (snd (ffmetadata_alloc st sz)) = pools st"
  "nextPoolId (snd (ffmetadata_alloc st sz)) = nextPoolId st"
  "smallPoolList (snd (ffmetadata_alloc st sz)) = smallPoolList st"
  "largePoolList (snd (ffmetadata_alloc st sz)) = largePoolList st"
  "jumboPoolList (snd (ffmetadata_alloc st sz)) = jumboPoolList st"
  "tcache (snd (ffmetadata_alloc st sz)) = tcache st"
  "largeListOpen (snd (ffmetadata_alloc st sz)) = largeListOpen st"
  "mdFreePools (snd (ffmetadata_alloc st sz)) = mdFreePools st"
  by (simp_all add: ffmetadata_alloc_def split: list.split)

lemma ffmetadata_alloc_fresh:
  "mdBins st (md_bin sz) = [] \<Longrightarrow> ffmetadata_alloc st sz = (\<lambda>_. 0, st)"
  by (simp add: ffmetadata_alloc_def)

lemma ffmetadata_free_frame [simp]:
  "poolHighWater (ffmetadata_free e st c sz) = poolHighWater st"
  "isInit (ffmetadata_free e st c sz) = isInit st"
  "errno (ffmetadata_free e st c sz) = errno st"
  "poolTree (ffmetadata_free e st c sz) = poolTree st"
  "poolCount (ffmetadata_free e st c sz) = poolCount st"
  "pools (ffmetadata_free e st c sz) = pools st"
  "nextPoolId (ffmetadata_free e st c sz) = nextPoolId st"
  "smallPoolList (ffmetadata_free e st c sz) = smallPoolList st"
  "largePoolList (ffmetadata_free e st c sz) = largePoolList st"
  "jumboPoolList (ffmetadata_free e st c sz) = jumboPoolList st"
  "tcache (ffmetadata_free e st c sz) = tcache st"
  "largeListOpen (ffmetadata_free e st c sz) = largeListOpen st"
  "mdFreePools (ffmetadata_free e st c sz) = mdFreePools st"
  by (simp_all add: ffmetadata_free_def Let_def)

lemma free_pool_frame [simp]:
  "poolHighWater (free_pool e st p) = poolHighWater st"
  "isInit (free_pool e st p) = isInit st"
  "errno (free_pool e st p) = errno st"
  "poolTree (free_pool e st p) = poolTree st"
  "poolCount (free_pool e st p) = poolCount st"
  "nextPoolId (free_pool e st p) = nextPoolId st"
  "smallPoolList (free_pool e st p) = smallPoolList st"
  "largePoolList (free_pool e st p) = largePoolList st"
  "jumboPoolList (free_pool e st p) = jumboPoolList st"
  "tcache (free_pool e st p) = tcache st"
  "largeListOpen (free_pool e st p) = largeListOpen st"
  "mdBins (free_pool e st p) = mdBins st"
  "mdFreePools (free_pool e st p) = p # mdFreePools st"
  by (simp_all add: free_pool_def)

lemma upd_pool_frame [simp]:
  "poolHighWater (upd_pool p f st) = poolHighWater st"
  "isInit (upd_pool p f st) = isInit st"
  "errno (upd_pool p f st) = errno st"
  "poolTree (upd_pool p f st) = poolTree st"
  "poolCount (upd_pool p f st) = poolCount st"
  "nextPoolId (upd_pool p f st) = nextPoolId st"
  "smallPoolList (upd_pool p f st) = smallPoolList st"
  "largePoolList (upd_pool p f st) = largePoolList st"
  "jumboPoolList (upd_pool p f st) = jumboPoolList st"
  "tcache (upd_pool p f st) = tcache st"
  "largeListOpen (upd_pool p f st) = largeListOpen st"
  "mdBins (upd_pool p f st) = mdBins st"
  "mdFreePools (upd_pool p f st) = mdFreePools st"
  by (simp_all add: upd_pool_def)

lemma mmap_retry_ok: "mm lh sz = MAP_OK \<Longrightarrow> mmap_retry mm sz lh hw = Some (Some lh, hw)"
  by (subst mmap_retry.simps) simp

lemma mmap_retry_err: "mm lh sz = MAP_ERR \<Longrightarrow> mmap_retry mm sz lh hw = Some (None, hw)"
  by (subst mmap_retry.simps) simp

lemma Suc_Suc_0: "Suc (Suc 0) = 2"
  by simp

lemma fun_upd_same_const [simp]: "(\<lambda>_. c)(k := c) = (\<lambda>_. c)"
  by auto

lemma create_large_lists_numeral:
  "create_large_lists e i (numeral k) st =
     (let (p, st1) = new_pool st
      in bindF (create_largepagepool e st1 p) (\<lambda>(ok, st2).
           if \<not> ok then Inl (Abort ''initialize'')
           else bindF (add_pool_to_tree st2 p) (\<lambda>st3.
                  (let (node, st4) = ffmetadata_alloc st3 NODE_SIZE
                   in create_large_lists e (i + 1) (pred_numeral k)
                        (st4\<lparr>largePoolList := (largePoolList st4)(i := [p]),
                             largeListOpen := (largeListOpen st4)(i := (node 0 \<noteq> 0))\<rparr>)))))"
  by (simp add: numeral_eq_Suc)

lemmas const_defs = POOL_SIZE_def POOL_SIZE_BITS_def PAGE_SIZE_def HALF_PAGE_def SIZE_MAX_def
  LEAF_BITS_def STEM_BITS_def ROOT_BITS_def STEM_COUNT_def LEAVES_PER_STEM_def POOLS_PER_LEAF_def
  ENOMEM_def EINVAL_def

lemmas tree_defs = add_pool_to_tree_def stemIndex_def leafIndex_def poolIndex_def
  ensure_leaf_def upd_leaf_def set_poolStart_def set_poolEnd_def zero_leaf_def
  find_pool_for_ptr_def find_leaf_def

lemma demo_env_sel:
  "os_mmap demo_env a sz =
     (if sz \<noteq> 0 \<and> a \<le> 0x800000000000 \<and> sz \<le> 0x800000000000 - a then MAP_OK else MAP_ERR)"
  "os_munmap demo_env a sz = UNMAP_OK" "os_sbrk0 demo_env = 0x1000000" "os_cpu demo_env = 0"
  by (simp_all add: demo_env_def)

lemmas os_defs = os_alloc_highwater_def os_alloc_highwater_hw_def mmap_retry_ok mmap_retry_err
  demo_env_sel

lemmas init_defs = initialize_def create_pagepool_def create_largepagepool_def new_pool_def
  boot_def upd_pool_def zero_pool_def MAX_LARGE_LISTS_def create_large_lists_numeral Suc_Suc_0
  ffmetadata_alloc_def

text \<open>The state after \<^verbatim>\<open>initialize()\<close>: the small pool 0 at \<open>0x41000000\<close> and the eight large
  pools 1 to 8 behind it, each of 2 MiB.\<close>

lemma demo_init_eq:
  "demo_init =
     \<lparr>isInit = 1, errno = 0, poolHighWater = 0x42200000, poolCount = 9,
      poolTree = [0 \<mapsto> [0 \<mapsto>
         \<lparr>poolStart = [520 \<mapsto> 0, 521 \<mapsto> 1, 522 \<mapsto> 2, 523 \<mapsto> 3, 524 \<mapsto> 4, 525 \<mapsto> 5,
                       526 \<mapsto> 6, 527 \<mapsto> 7, 528 \<mapsto> 8],
          poolEnd = [521 \<mapsto> 0, 522 \<mapsto> 1, 523 \<mapsto> 2, 524 \<mapsto> 3, 525 \<mapsto> 4, 526 \<mapsto> 5,
                     527 \<mapsto> 6, 528 \<mapsto> 7, 529 \<mapsto> 8]\<rparr>]],
      pools = (\<lambda>_. zero_pool)
        (0 := \<lparr>pool_start = 0x41000000, pool_end = 0x41200000, nextFreePage = 0x41000000,
                tracking = PageMaps (\<lambda>_. zero_pagemap), nextFreeIndex = - 1,
                startInUse = 0x41000000, endInUse = 0x41200000\<rparr>,
         1 := fresh_large_pool 0x41200000, 2 := fresh_large_pool 0x41400000,
         3 := fresh_large_pool 0x41600000, 4 := fresh_large_pool 0x41800000,
         5 := fresh_large_pool 0x41A00000, 6 := fresh_large_pool 0x41C00000,
         7 := fresh_large_pool 0x41E00000, 8 := fresh_large_pool 0x42000000),
      nextPoolId = 9, smallPoolList = [0],
      largePoolList = (\<lambda>_. [])(0 := [1], 1 := [2], 2 := [3], 3 := [4], 4 := [5], 5 := [6],
                                 6 := [7], 7 := [8]),
      jumboPoolList = [], tcache = None, largeListOpen = (\<lambda>_. False), mdFreePools = [],
      mdBins = (\<lambda>_. [])\<rparr>"
  by (simp add: demo_init_def demo_env_def init_defs os_defs tree_defs const_defs Let_def
      fresh_large_pool_def)

lemma demo_initialize: "initialize demo_env boot = Inr demo_init"
  by (simp add: demo_init_def demo_env_def init_defs os_defs tree_defs const_defs Let_def)

lemma demo_init_fields:
  "isInit demo_init = 1" "poolHighWater demo_init = 0x42200000" "jumboPoolList demo_init = []"
  "nextPoolId demo_init = 9" "errno demo_init = 0" "tcache demo_init = None"
  "smallPoolList demo_init = [0]" "largePoolList demo_init 0 = [1]"
  by (simp_all add: demo_init_eq)

subsection \<open>The jumbo path when the kernel refuses the mapping\<close>

lemma os_alloc_highwater_refused:
  assumes "os_mmap e (poolHighWater st) sz = MAP_ERR"
  shows "os_alloc_highwater e st sz = Inr (None, st\<lparr>poolHighWater := poolHighWater st + sz\<rparr>)"
  using assms by (simp add: os_alloc_highwater_def os_alloc_highwater_hw_def mmap_retry_err)

lemma ffmalloc_jumbo_refused:
  assumes "os_mmap e (poolHighWater st) (ALIGN_TO sz PAGE_SIZE) = MAP_ERR"
  shows "ret_val (ffmalloc_jumbo e st sz) = Some 0"
    and "poolHighWater (ret_state (ffmalloc_jumbo e st sz)) = poolHighWater st + ALIGN_TO sz PAGE_SIZE"
    and "isInit (ret_state (ffmalloc_jumbo e st sz)) = isInit st"
  using assms
  by (simp_all add: ffmalloc_jumbo_def create_jumbopool_def split_beta
      os_alloc_highwater_refused ret_val_def ret_state_def Let_def)

lemma ffmalloc_to_jumbo:
  assumes "isInit st = 1" and "size0 \<noteq> 0" and "size0 \<le> SIZE_MAX - MIN_ALIGNMENT b"
    and "POOL_SIZE - HALF_PAGE \<le> ALIGN_SIZE b size0"
  shows "ffmalloc b e st size0 =
           bindF (ffmalloc_jumbo e st (ALIGN_SIZE b size0))
             (\<lambda>(allocation, st2). Inr (allocation, if allocation = 0 then st2\<lparr>errno := ENOMEM\<rparr> else st2))"
proof -
  have "\<not> ALIGN_SIZE b size0 \<le> HALF_PAGE" "\<not> ALIGN_SIZE b size0 < POOL_SIZE - HALF_PAGE"
    using assms(4) by (simp_all add: const_defs word_le_nat_alt word_less_nat_alt)
  then show ?thesis
    using assms(1-3) by (simp add: ffmalloc_def Let_def word_le_nat_alt word_less_nat_alt)
qed

lemma ffmalloc_jumbo_refused_full:
  assumes "isInit st = 1" and "size0 \<noteq> 0" and "size0 \<le> SIZE_MAX - MIN_ALIGNMENT b"
    and "POOL_SIZE - HALF_PAGE \<le> ALIGN_SIZE b size0"
    and "os_mmap e (poolHighWater st) (ALIGN_TO (ALIGN_SIZE b size0) PAGE_SIZE) = MAP_ERR"
  shows "ret_val (ffmalloc b e st size0) = Some 0"
    and "poolHighWater (ret_state (ffmalloc b e st size0))
           = poolHighWater st + ALIGN_TO (ALIGN_SIZE b size0) PAGE_SIZE"
    and "isInit (ret_state (ffmalloc b e st size0)) = 1"
  using assms(5) assms(1)
  by (simp_all add: ffmalloc_to_jumbo [OF assms(1-4)] ffmalloc_jumbo_def create_jumbopool_def
      split_beta os_alloc_highwater_refused ret_val_def ret_state_def Let_def)

subsection \<open>The high-water mark\<close>

text \<open>Every change of the high-water mark by \<^verbatim>\<open>os_alloc_highwater\<close> is the addition of the
  request size and of a multiple of \<^verbatim>\<open>POOL_SIZE\<close>, in 64-bit arithmetic.\<close>

lemma mmap_retry_advances_aux:
  assumes "mmap_retry mm sz lh hw = Some y"
  shows "\<exists>k. snd y = hw + word_of_nat k * POOL_SIZE"
proof (rule mmap_retry.raw_induct
    [where P = "\<lambda>mm sz lh hw y. \<exists>k. snd y = hw + word_of_nat k * POOL_SIZE", OF _ assms])
  fix f :: "(addr \<Rightarrow> size_t \<Rightarrow> mmap_result) \<Rightarrow> size_t \<Rightarrow> addr \<Rightarrow> addr \<Rightarrow> (addr option \<times> addr) option"
  fix mm sz lh hw y
  assume IH: "\<And>mm sz lh hw y. f mm sz lh hw = Some y \<Longrightarrow> \<exists>k. snd y = hw + word_of_nat k * POOL_SIZE"
  assume eq: "(case mm lh sz of MAP_OK \<Rightarrow> Some (Some lh, hw)
                | MAP_EEXIST \<Rightarrow> f mm sz hw (hw + POOL_SIZE)
                | MAP_ERR \<Rightarrow> Some (None, hw)) = Some y"
  show "\<exists>k. snd y = hw + word_of_nat k * POOL_SIZE"
  proof (cases "mm lh sz")
    case MAP_OK
    with eq have "snd y = hw" by auto
    then show ?thesis by (intro exI [of _ 0]) simp
  next
    case MAP_EEXIST
    with eq have "f mm sz hw (hw + POOL_SIZE) = Some y" by simp
    from IH [OF this] obtain k where "snd y = hw + POOL_SIZE + word_of_nat k * POOL_SIZE" by blast
    then show ?thesis by (intro exI [of _ "Suc k"]) (simp add: algebra_simps)
  next
    case MAP_ERR
    with eq have "snd y = hw" by auto
    then show ?thesis by (intro exI [of _ 0]) simp
  qed
qed

lemma os_alloc_highwater_advances:
  assumes "os_alloc_highwater e st sz = Inr (r, st')"
  shows "\<exists>k. poolHighWater st' = poolHighWater st + sz + word_of_nat k * POOL_SIZE"
proof -
  from assms obtain hw where
    m: "mmap_retry (os_mmap e) sz (poolHighWater st) (poolHighWater st + sz) = Some (r, hw)"
    and s: "st' = st\<lparr>poolHighWater := hw\<rparr>"
    by (auto simp: os_alloc_highwater_def os_alloc_highwater_hw_def split: option.splits)
  from mmap_retry_advances_aux [OF m] s show ?thesis by auto
qed

text \<open>
  Claim C2 says that \<^verbatim>\<open>poolHighWater\<close> never decreases. The mark is advanced by the size of
  the request before \<^verbatim>\<open>mmap\<close> is tried and is left there when the kernel refuses; nothing bounds
  the sum. Two requests of \<open>2\<^sup>6\<^sup>3\<close> bytes, both refused, add \<open>2\<^sup>6\<^sup>4\<close>: after the first the mark is at
  \<open>0x8000000042200000\<close>, after the second it is back at \<open>0x42200000\<close>, below where it was.
\<close>

theorem highwater_wraps_after_two_refused_requests:
  "ret_val (ffmalloc SixteenByteAlign demo_env demo_init 0x8000000000000000) = Some 0 \<and>
   poolHighWater demo_init = 0x42200000 \<and>
   poolHighWater (ret_state (ffmalloc SixteenByteAlign demo_env demo_init 0x8000000000000000))
     = 0x8000000042200000 \<and>
   ret_val (ffmalloc SixteenByteAlign demo_env
     (ret_state (ffmalloc SixteenByteAlign demo_env demo_init 0x8000000000000000))
     0x8000000000000000) = Some 0 \<and>
   poolHighWater (ret_state (ffmalloc SixteenByteAlign demo_env
     (ret_state (ffmalloc SixteenByteAlign demo_env demo_init 0x8000000000000000))
     0x8000000000000000)) = 0x42200000"
proof -
  let ?st1 = "ret_state (ffmalloc SixteenByteAlign demo_env demo_init 0x8000000000000000)"
  have m0: "os_mmap demo_env (poolHighWater demo_init)
             (ALIGN_TO (ALIGN_SIZE SixteenByteAlign 0x8000000000000000) PAGE_SIZE) = MAP_ERR"
    by (simp add: demo_env_sel demo_init_fields ALIGN_TO_def PAGE_SIZE_def)
  note a = ffmalloc_jumbo_refused_full
    [of demo_init "0x8000000000000000" SixteenByteAlign demo_env, OF _ _ _ _ m0]
  have a1: "ret_val (ffmalloc SixteenByteAlign demo_env demo_init 0x8000000000000000) = Some 0"
    by (rule a) (simp_all add: demo_init_fields const_defs)
  have a2: "poolHighWater ?st1 = 0x8000000042200000"
    by (subst a(2)) (simp_all add: demo_init_fields const_defs ALIGN_TO_def)
  have a3: "isInit ?st1 = 1"
    by (rule a) (simp_all add: demo_init_fields const_defs)
  have m1: "os_mmap demo_env (poolHighWater ?st1)
             (ALIGN_TO (ALIGN_SIZE SixteenByteAlign 0x8000000000000000) PAGE_SIZE) = MAP_ERR"
    by (simp add: a2 demo_env_sel ALIGN_TO_def PAGE_SIZE_def)
  note b = ffmalloc_jumbo_refused_full
    [of ?st1 "0x8000000000000000" SixteenByteAlign demo_env, OF a3 _ _ _ m1]
  have b1: "ret_val (ffmalloc SixteenByteAlign demo_env ?st1 0x8000000000000000) = Some 0"
    by (rule b) (simp_all add: const_defs)
  have b2: "poolHighWater (ret_state (ffmalloc SixteenByteAlign demo_env ?st1 0x8000000000000000))
              = 0x42200000"
    by (subst b(2)) (simp_all add: a2 const_defs ALIGN_TO_def)
  show ?thesis using a1 a2 b1 b2 by (simp add: demo_init_fields)
qed

lemma bindF_eq_Inr: "(bindF m f = Inr y) = (\<exists>x. m = Inr x \<and> f x = Inr y)"
  by (cases m) simp_all

subsection \<open>The jumbo allocator\<close>

lemma ffmalloc_to_large:
  assumes "isInit st = 1" and "size0 \<noteq> 0" and "size0 \<le> SIZE_MAX - MIN_ALIGNMENT b"
    and "HALF_PAGE < ALIGN_SIZE b size0" and "ALIGN_SIZE b size0 < POOL_SIZE - HALF_PAGE"
  shows "ffmalloc b e st size0 =
           bindF (ffmalloc_large b e st (ALIGN_SIZE b size0) (MIN_ALIGNMENT b))
             (\<lambda>(allocation, st2). Inr (allocation, if allocation = 0 then st2\<lparr>errno := ENOMEM\<rparr> else st2))"
proof -
  have "\<not> ALIGN_SIZE b size0 \<le> HALF_PAGE"
    using assms(4) by (simp add: word_le_nat_alt word_less_nat_alt)
  then show ?thesis
    using assms(1-3,5) by (simp add: ffmalloc_def Let_def word_le_nat_alt word_less_nat_alt)
qed

lemma add_pool_to_tree_frame:
  "add_pool_to_tree st p = Inr st' \<Longrightarrow>
     \<exists>t. st' = st\<lparr>poolTree := t, poolCount := poolCount st + 1\<rparr>"
  by (auto simp: add_pool_to_tree_def bindF_def Let_def split: if_splits sum.splits)

lemma add_pool_to_tree_pools:
  "add_pool_to_tree st p = Inr st' \<Longrightarrow>
     pools st' = pools st \<and> jumboPoolList st' = jumboPoolList st \<and> nextPoolId st' = nextPoolId st"
  by (auto dest: add_pool_to_tree_frame)

lemma os_alloc_highwater_frame:
  "os_alloc_highwater e st sz = Inr (r, st') \<Longrightarrow> \<exists>hw. st' = st\<lparr>poolHighWater := hw\<rparr>"
  by (auto simp: os_alloc_highwater_def split: option.splits)

lemma os_alloc_highwater_pools:
  "os_alloc_highwater e st sz = Inr (r, st') \<Longrightarrow>
     pools st' = pools st \<and> jumboPoolList st' = jumboPoolList st \<and> nextPoolId st' = nextPoolId st"
  by (auto dest: os_alloc_highwater_frame)

text \<open>The state in which \<^verbatim>\<open>ffmalloc_jumbo\<close> asks the kernel for memory: the descriptor and the
  list node are taken, and \<^verbatim>\<open>create_jumbopool\<close> has set the two fields it sets first.\<close>

lemma ffmalloc_jumbo_ok:
  assumes "ffmalloc_jumbo e st sz = Inr (a, st')" and "a \<noteq> 0"
  shows "\<exists>st2 st3.
     os_alloc_highwater e
        (upd_pool (fst (new_pool st)) (\<lambda>pl. pl\<lparr>tracking := NoTracking, nextFreeIndex := SIZE_MAX - 1\<rparr>)
           (snd (ffmetadata_alloc (snd (new_pool st)) NODE_SIZE)))
        (ALIGN_TO sz PAGE_SIZE) = Inr (Some a, st2) \<and>
     add_pool_to_tree (upd_pool (fst (new_pool st))
        (\<lambda>pl. pl\<lparr>pool_start := a, pool_end := a + ALIGN_TO sz PAGE_SIZE\<rparr>) st2) (fst (new_pool st)) = Inr st3 \<and>
     st' = st3\<lparr>jumboPoolList := fst (new_pool st) # jumboPoolList st3\<rparr>"
proof -
  let ?p = "fst (new_pool st)"
  let ?st1 = "snd (ffmetadata_alloc (snd (new_pool st)) NODE_SIZE)"
  let ?st0 = "upd_pool ?p (\<lambda>pl. pl\<lparr>tracking := NoTracking, nextFreeIndex := SIZE_MAX - 1\<rparr>) ?st1"
  from assms obtain storage st2 st3 where
    os: "os_alloc_highwater e ?st0 (ALIGN_TO sz PAGE_SIZE) = Inr (Some storage, st2)"
    and tr: "add_pool_to_tree (upd_pool ?p (\<lambda>pl. pl\<lparr>pool_start := storage, pool_end := storage + ALIGN_TO sz PAGE_SIZE\<rparr>) st2) ?p = Inr st3"
    and a: "a = pool_start (pools st3 ?p)"
    and st': "st' = st3\<lparr>jumboPoolList := ?p # jumboPoolList st3\<rparr>"
    by (auto simp: ffmalloc_jumbo_def create_jumbopool_def Let_def split_beta bindF_eq_Inr
        split: option.splits if_splits)
  from add_pool_to_tree_pools [OF tr] a have "a = storage"
    by (simp add: upd_pool_def)
  with os tr st' show ?thesis by blast
qed

lemma ffmalloc_jumbo_pool:
  assumes "ffmalloc_jumbo e st sz = Inr (a, st')" and "a \<noteq> 0"
  shows "pool_start (pools st' (fst (new_pool st))) = a \<and>
         pool_end (pools st' (fst (new_pool st))) = a + ALIGN_TO sz PAGE_SIZE \<and>
         nextFreeIndex (pools st' (fst (new_pool st))) = SIZE_MAX - 1 \<and>
         jumboPoolList st' = fst (new_pool st) # jumboPoolList st \<and>
         (\<forall>q. q \<noteq> fst (new_pool st) \<longrightarrow> pools st' q = pools st q)"
proof -
  let ?p = "fst (new_pool st)"
  from ffmalloc_jumbo_ok [OF assms] obtain st2 st3 where
    os: "os_alloc_highwater e
        (upd_pool ?p (\<lambda>pl. pl\<lparr>tracking := NoTracking, nextFreeIndex := SIZE_MAX - 1\<rparr>)
           (snd (ffmetadata_alloc (snd (new_pool st)) NODE_SIZE)))
        (ALIGN_TO sz PAGE_SIZE) = Inr (Some a, st2)"
    and tr: "add_pool_to_tree (upd_pool ?p
        (\<lambda>pl. pl\<lparr>pool_start := a, pool_end := a + ALIGN_TO sz PAGE_SIZE\<rparr>) st2) ?p = Inr st3"
    and st': "st' = st3\<lparr>jumboPoolList := ?p # jumboPoolList st3\<rparr>"
    by blast
  have np: "\<And>q. q \<noteq> ?p \<Longrightarrow> pools (snd (new_pool st)) q = pools st q"
    by (auto simp: new_pool_def split: list.splits)
  from os_alloc_highwater_pools [OF os] add_pool_to_tree_pools [OF tr] st' np
  show ?thesis
    by (simp add: upd_pool_def)
qed

lemma ensure_leaf_find:
  "find_leaf (ensure_leaf t a) c =
     (if stemIndex c = stemIndex a \<and> leafIndex c = leafIndex a
      then Some (case find_leaf t c of None \<Rightarrow> zero_leaf | Some l \<Rightarrow> l)
      else find_leaf t c)"
  by (auto simp: ensure_leaf_def find_leaf_def split: option.splits)

lemma upd_leaf_ok:
  "find_leaf t a = Some l \<Longrightarrow> \<exists>t'. upd_leaf t a f = Inr t'"
  by (auto simp: upd_leaf_def find_leaf_def split: option.splits)

lemma upd_leaf_find:
  assumes "upd_leaf t a f = Inr t'"
  shows "find_leaf t' c =
     (if stemIndex c = stemIndex a \<and> leafIndex c = leafIndex a
      then map_option f (find_leaf t c) else find_leaf t c)"
  using assms
  by (auto simp: upd_leaf_def find_leaf_def split: option.splits if_splits)

lemma add_pool_to_tree_ok:
  assumes "stemIndex (pool_start (pools st p)) < STEM_COUNT"
    and "stemIndex (pool_end (pools st p)) < STEM_COUNT"
  shows "\<exists>st'. add_pool_to_tree st p = Inr st'"
proof -
  let ?s = "pool_start (pools st p)" and ?e = "pool_end (pools st p)"
  let ?t = "ensure_leaf (ensure_leaf (poolTree st) ?s) ?e"
  have "\<exists>l. find_leaf ?t ?s = Some l"
    by (simp add: ensure_leaf_find)
  from upd_leaf_ok [OF _, of ?t ?s _ "set_poolStart (Some p) ?s"] this
  obtain t1 where t1: "upd_leaf ?t ?s (set_poolStart (Some p) ?s) = Inr t1" by blast
  have "\<exists>l. find_leaf t1 ?e = Some l"
    by (auto simp: upd_leaf_find [OF t1] ensure_leaf_find)
  from upd_leaf_ok [OF _, of t1 ?e _ "set_poolEnd (Some p) ?e"] this
  obtain t2 where t2: "upd_leaf t1 ?e (set_poolEnd (Some p) ?e) = Inr t2" by blast
  from assms t1 t2 show ?thesis
    by (simp add: add_pool_to_tree_def Let_def not_le [symmetric])
qed

subsection \<open>Looking up a pool that was just registered\<close>

lemma find_pool_for_ptr_cong:
  "poolTree st' = poolTree st \<Longrightarrow> pools st' = pools st \<Longrightarrow>
   find_pool_for_ptr st' a = find_pool_for_ptr st a"
  by (auto simp: find_pool_for_ptr_def split: option.splits)

lemma upd_leaf_at:
  assumes "upd_leaf t a f = Inr t'"
  shows "\<exists>l. find_leaf t a = Some l \<and> find_leaf t' a = Some (f l)"
  using assms
  by (auto simp: upd_leaf_def find_leaf_def split: option.splits)

lemma add_pool_to_tree_find_start:
  assumes "add_pool_to_tree st p = Inr st'"
  shows "find_pool_for_ptr st' (pool_start (pools st p)) = Inr (Some p)"
proof -
  let ?s = "pool_start (pools st p)" and ?e = "pool_end (pools st p)"
  from assms have stem: "\<not> STEM_COUNT \<le> stemIndex ?s"
    by (auto simp: add_pool_to_tree_def Let_def split: if_splits)
  from assms obtain t1 t2 where
    t1: "upd_leaf (ensure_leaf (ensure_leaf (poolTree st) ?s) ?e) ?s (set_poolStart (Some p) ?s) = Inr t1"
    and t2: "upd_leaf t1 ?e (set_poolEnd (Some p) ?e) = Inr t2"
    and st': "st' = st\<lparr>poolTree := t2, poolCount := poolCount st + 1\<rparr>"
    by (auto simp: add_pool_to_tree_def Let_def bindF_eq_Inr split: if_splits)
  from upd_leaf_at [OF t1] obtain l where l: "find_leaf t1 ?s = Some (set_poolStart (Some p) ?s l)"
    by blast
  have "\<exists>l'. find_leaf t2 ?s = Some l' \<and> poolStart l' (poolIndex ?s) = Some p"
    using l by (auto simp: upd_leaf_find [OF t2] set_poolStart_def set_poolEnd_def)
  then obtain l' where l': "find_leaf t2 ?s = Some l'" "poolStart l' (poolIndex ?s) = Some p"
    by blast
  show ?thesis
    using stem l' by (simp add: find_pool_for_ptr_def st')
qed

lemma ffmalloc_jumbo_usable_size:
  assumes "ffmalloc_jumbo e st sz = Inr (a, st')" and "a \<noteq> 0"
  shows "find_pool_for_ptr st' a = Inr (Some (fst (new_pool st)))"
    and "ffmalloc_usable_size st' a = Inr (ALIGN_TO sz PAGE_SIZE)"
proof -
  let ?p = "fst (new_pool st)"
  from ffmalloc_jumbo_ok [OF assms] obtain st2 st3 where
    tr: "add_pool_to_tree (upd_pool ?p
           (\<lambda>pl. pl\<lparr>pool_start := a, pool_end := a + ALIGN_TO sz PAGE_SIZE\<rparr>) st2) ?p = Inr st3"
    and st': "st' = st3\<lparr>jumboPoolList := ?p # jumboPoolList st3\<rparr>"
    by blast
  from add_pool_to_tree_find_start [OF tr] have "find_pool_for_ptr st3 a = Inr (Some ?p)"
    by (simp add: upd_pool_def)
  moreover have "find_pool_for_ptr st' a = find_pool_for_ptr st3 a"
    by (rule find_pool_for_ptr_cong) (simp_all add: st')
  ultimately show f: "find_pool_for_ptr st' a = Inr (Some ?p)"
    by simp
  from ffmalloc_jumbo_pool [OF assms] f assms(2)
  show "ffmalloc_usable_size st' a = Inr (ALIGN_TO sz PAGE_SIZE)"
    by (simp add: ffmalloc_usable_size_def SIZE_MAX_def)
qed

text \<open>When the kernel grants the mapping at the high-water mark, the jumbo allocator returns
  that address.\<close>

lemma ffmalloc_jumbo_granted:
  assumes ok: "os_mmap e (poolHighWater st) (ALIGN_TO sz PAGE_SIZE) = MAP_OK"
    and s: "stemIndex (poolHighWater st) < STEM_COUNT"
    and e: "stemIndex (poolHighWater st + ALIGN_TO sz PAGE_SIZE) < STEM_COUNT"
  shows "\<exists>st'. ffmalloc_jumbo e st sz = Inr (poolHighWater st, st') \<and>
           poolHighWater st' = poolHighWater st + ALIGN_TO sz PAGE_SIZE"
proof -
  let ?p = "fst (new_pool st)"
  let ?st1 = "snd (ffmetadata_alloc (snd (new_pool st)) NODE_SIZE)"
  let ?st0 = "upd_pool ?p (\<lambda>pl. pl\<lparr>tracking := NoTracking, nextFreeIndex := SIZE_MAX - 1\<rparr>) ?st1"
  let ?hw = "poolHighWater st"
  let ?st2 = "upd_pool ?p (\<lambda>pl. pl\<lparr>pool_start := ?hw, pool_end := ?hw + ALIGN_TO sz PAGE_SIZE\<rparr>)
                (?st0\<lparr>poolHighWater := ?hw + ALIGN_TO sz PAGE_SIZE\<rparr>)"
  have os: "os_alloc_highwater e ?st0 (ALIGN_TO sz PAGE_SIZE)
              = Inr (Some ?hw, ?st0\<lparr>poolHighWater := ?hw + ALIGN_TO sz PAGE_SIZE\<rparr>)"
    using ok by (simp add: os_alloc_highwater_def os_alloc_highwater_hw_def mmap_retry_ok)
  have "\<exists>st3. add_pool_to_tree ?st2 ?p = Inr st3"
    by (rule add_pool_to_tree_ok) (simp_all add: upd_pool_def s e)
  then obtain st3 where tr: "add_pool_to_tree ?st2 ?p = Inr st3" by blast
  from add_pool_to_tree_frame [OF tr] obtain t where
    st3: "st3 = ?st2\<lparr>poolTree := t, poolCount := poolCount ?st2 + 1\<rparr>" by blast
  have "ffmalloc_jumbo e st sz = Inr (?hw, st3\<lparr>jumboPoolList := ?p # jumboPoolList st3\<rparr>)"
    using os tr st3
    by (simp add: ffmalloc_jumbo_def create_jumbopool_def Let_def split_beta upd_pool_def)
  moreover have "poolHighWater (st3\<lparr>jumboPoolList := ?p # jumboPoolList st3\<rparr>)
      = ?hw + ALIGN_TO sz PAGE_SIZE"
    by (simp add: st3)
  ultimately show ?thesis by blast
qed

subsection \<open>Dispatch on the size, and the pool of a jumbo allocation\<close>

lemma popcount_card: "FFPOPCOUNT64 w = card {n. n < 64 \<and> bit w n}"
proof -
  have "distinct (filter (bit w) [0..<64])" by simp
  then have "FFPOPCOUNT64 w = card (set (filter (bit w) [0..<64]))"
    unfolding FFPOPCOUNT64_def by (rule distinct_card [symmetric])
  also have "set (filter (bit w) [0..<64]) = {n. n < 64 \<and> bit w n}" by auto
  finally show ?thesis .
qed

lemma popcount_pow2: "k < 64 \<Longrightarrow> FFPOPCOUNT64 (2 ^ k) = 1"
proof -
  assume k: "k < 64"
  have "{n. n < 64 \<and> bit (2 ^ k :: 64 word) n} = {k}"
    using k by (auto simp: bit_exp_iff)
  then show ?thesis by (simp add: popcount_card)
qed

lemma demo_init_pools:
  "pools demo_init (Suc 0) = fresh_large_pool 0x41200000"
  by (simp add: demo_init_eq)

lemma demo_init_md:
  "mdFreePools demo_init = []" "mdBins demo_init k = []" "largeListOpen demo_init i = False"
  "fst (new_pool demo_init) = 9"
  by (simp_all add: demo_init_eq new_pool_def)

text \<open>
  Claim C1, as amended: \<^verbatim>\<open>ffmalloc\<close> sends a request that passes its size guard to the jumbo
  allocator when the aligned size is at least \<^verbatim>\<open>POOL_SIZE - HALF_PAGE\<close> and to the large
  allocator when it lies strictly between \<^verbatim>\<open>HALF_PAGE\<close> and that threshold. The aligned entry
  points use another threshold: \<^verbatim>\<open>ffmemalign_internal\<close> (on the aligned size) and
  \<^verbatim>\<open>ffaligned_alloc\<close> (on the size as given) send to the jumbo allocator from \<^verbatim>\<open>POOL_SIZE\<close> on
  and to the large allocator below it, whenever the small bins do not serve the request. The
  jumbo allocator returns the high-water mark, and advances it by the size rounded up to
  \<^verbatim>\<open>PAGE_SIZE\<close>, when the kernel grants the mapping there (and the addresses are within the
  48 bits of the pool tree). A jumbo allocation that succeeds has a pool of its own: the
  descriptor that this call took from the metadata allocator starts at the address returned,
  ends after the size rounded up to \<^verbatim>\<open>PAGE_SIZE\<close>, has \<^verbatim>\<open>nextFreeIndex = SIZE_MAX - 1\<close>, is
  the head of the jumbo list and is what the pool tree finds for the address; the usable size
  of the allocation is the size of that pool, and no other descriptor is changed.
\<close>

theorem size_class_dispatch:
  assumes "isInit st = 1"
  shows "(size0 \<noteq> 0 \<and> size0 \<le> SIZE_MAX - MIN_ALIGNMENT b \<and> POOL_SIZE - HALF_PAGE \<le> ALIGN_SIZE b size0 \<longrightarrow>
            ffmalloc b e st size0 =
              bindF (ffmalloc_jumbo e st (ALIGN_SIZE b size0))
                (\<lambda>(allocation, st2). Inr (allocation, if allocation = 0 then st2\<lparr>errno := ENOMEM\<rparr> else st2))) \<and>
         (size0 \<noteq> 0 \<and> size0 \<le> SIZE_MAX - MIN_ALIGNMENT b \<and> HALF_PAGE < ALIGN_SIZE b size0
            \<and> ALIGN_SIZE b size0 < POOL_SIZE - HALF_PAGE \<longrightarrow>
            ffmalloc b e st size0 =
              bindF (ffmalloc_large b e st (ALIGN_SIZE b size0) (MIN_ALIGNMENT b))
                (\<lambda>(allocation, st2). Inr (allocation, if allocation = 0 then st2\<lparr>errno := ENOMEM\<rparr> else st2))) \<and>
         (\<not> (size0 \<le> HALF_PAGE \<and> alignment \<le> HALF_PAGE) \<longrightarrow>
            ffmemalign_internal b e st alignment size0 =
              (if POOL_SIZE \<le> ALIGN_SIZE b size0 then ffmalloc_jumbo e st (ALIGN_SIZE b size0)
               else ffmalloc_large b e st (ALIGN_SIZE b size0) alignment)) \<and>
         (size0 \<noteq> 0 \<and> size0 < SIZE_MAX - PAGE_SIZE \<and> 8 \<le> alignment \<and> FFPOPCOUNT64 alignment = 1
            \<and> alignment \<le> size0 \<and> size0 mod alignment = 0
            \<and> \<not> (POOL_SIZE \<le> size0 + PAGE_SIZE \<and> PAGE_SIZE < alignment)
            \<and> \<not> (size0 \<le> HALF_PAGE \<and> alignment \<le> HALF_PAGE) \<longrightarrow>
            ffaligned_alloc b e st alignment size0 =
              (if POOL_SIZE \<le> size0 then ffmalloc_jumbo e st size0
               else ffmalloc_large b e st size0 alignment)) \<and>
         (os_mmap e (poolHighWater st) (ALIGN_TO sz PAGE_SIZE) = MAP_OK \<and>
          stemIndex (poolHighWater st) < STEM_COUNT \<and>
          stemIndex (poolHighWater st + ALIGN_TO sz PAGE_SIZE) < STEM_COUNT \<longrightarrow>
            (\<exists>st'. ffmalloc_jumbo e st sz = Inr (poolHighWater st, st') \<and>
                   poolHighWater st' = poolHighWater st + ALIGN_TO sz PAGE_SIZE)) \<and>
         (\<forall>a st'. ffmalloc_jumbo e st sz = Inr (a, st') \<and> a \<noteq> 0 \<longrightarrow>
            pool_start (pools st' (fst (new_pool st))) = a \<and>
            pool_end (pools st' (fst (new_pool st))) = a + ALIGN_TO sz PAGE_SIZE \<and>
            nextFreeIndex (pools st' (fst (new_pool st))) = SIZE_MAX - 1 \<and>
            jumboPoolList st' = fst (new_pool st) # jumboPoolList st \<and>
            (\<forall>q. q \<noteq> fst (new_pool st) \<longrightarrow> pools st' q = pools st q) \<and>
            find_pool_for_ptr st' a = Inr (Some (fst (new_pool st))) \<and>
            ffmalloc_usable_size st' a = Inr (ALIGN_TO sz PAGE_SIZE))"
proof (intro conjI impI allI)
  assume "size0 \<noteq> 0 \<and> size0 \<le> SIZE_MAX - MIN_ALIGNMENT b \<and> POOL_SIZE - HALF_PAGE \<le> ALIGN_SIZE b size0"
  then show "ffmalloc b e st size0 =
              bindF (ffmalloc_jumbo e st (ALIGN_SIZE b size0))
                (\<lambda>(allocation, st2). Inr (allocation, if allocation = 0 then st2\<lparr>errno := ENOMEM\<rparr> else st2))"
    using ffmalloc_to_jumbo [OF assms] by blast
next
  assume "size0 \<noteq> 0 \<and> size0 \<le> SIZE_MAX - MIN_ALIGNMENT b \<and> HALF_PAGE < ALIGN_SIZE b size0
            \<and> ALIGN_SIZE b size0 < POOL_SIZE - HALF_PAGE"
  then show "ffmalloc b e st size0 =
              bindF (ffmalloc_large b e st (ALIGN_SIZE b size0) (MIN_ALIGNMENT b))
                (\<lambda>(allocation, st2). Inr (allocation, if allocation = 0 then st2\<lparr>errno := ENOMEM\<rparr> else st2))"
    using ffmalloc_to_large [OF assms] by blast
next
  assume "\<not> (size0 \<le> HALF_PAGE \<and> alignment \<le> HALF_PAGE)"
  then show "ffmemalign_internal b e st alignment size0 =
              (if POOL_SIZE \<le> ALIGN_SIZE b size0 then ffmalloc_jumbo e st (ALIGN_SIZE b size0)
               else ffmalloc_large b e st (ALIGN_SIZE b size0) alignment)"
    by (auto simp: ffmemalign_internal_def Let_def)
next
  assume h: "size0 \<noteq> 0 \<and> size0 < SIZE_MAX - PAGE_SIZE \<and> 8 \<le> alignment \<and> FFPOPCOUNT64 alignment = 1
            \<and> alignment \<le> size0 \<and> size0 mod alignment = 0
            \<and> \<not> (POOL_SIZE \<le> size0 + PAGE_SIZE \<and> PAGE_SIZE < alignment)
            \<and> \<not> (size0 \<le> HALF_PAGE \<and> alignment \<le> HALF_PAGE)"
  then have "\<not> SIZE_MAX - PAGE_SIZE \<le> size0" "\<not> alignment < 8" "\<not> size0 < alignment"
    by (simp_all add: word_le_nat_alt word_less_nat_alt)
  with h show "ffaligned_alloc b e st alignment size0 =
              (if POOL_SIZE \<le> size0 then ffmalloc_jumbo e st size0
               else ffmalloc_large b e st size0 alignment)"
    by (auto simp: ffaligned_alloc_def)
next
  assume "os_mmap e (poolHighWater st) (ALIGN_TO sz PAGE_SIZE) = MAP_OK \<and>
          stemIndex (poolHighWater st) < STEM_COUNT \<and>
          stemIndex (poolHighWater st + ALIGN_TO sz PAGE_SIZE) < STEM_COUNT"
  then show "\<exists>st'. ffmalloc_jumbo e st sz = Inr (poolHighWater st, st') \<and>
                   poolHighWater st' = poolHighWater st + ALIGN_TO sz PAGE_SIZE"
    using ffmalloc_jumbo_granted [of e st sz] by blast
next
  fix a st'
  assume j: "ffmalloc_jumbo e st sz = Inr (a, st') \<and> a \<noteq> 0"
  then show "pool_start (pools st' (fst (new_pool st))) = a"
   "pool_end (pools st' (fst (new_pool st))) = a + ALIGN_TO sz PAGE_SIZE"
   "nextFreeIndex (pools st' (fst (new_pool st))) = SIZE_MAX - 1"
   "jumboPoolList st' = fst (new_pool st) # jumboPoolList st"
    using ffmalloc_jumbo_pool [of e st sz a st'] by simp_all
  from j show "find_pool_for_ptr st' a = Inr (Some (fst (new_pool st)))"
    "ffmalloc_usable_size st' a = Inr (ALIGN_TO sz PAGE_SIZE)"
    using ffmalloc_jumbo_usable_size [of e st sz a st'] by simp_all
  fix q assume "q \<noteq> fst (new_pool st)"
  with j show "pools st' q = pools st q"
    using ffmalloc_jumbo_pool [of e st sz a st'] by simp
qed

text \<open>In the concrete process \<^verbatim>\<open>ffmalloc(2 MiB)\<close> returns \<open>0x42200000\<close>, the start of the new
  jumbo pool 9 of 2 MiB.\<close>

theorem size_class_dispatch_witness:
  "ret_val (ffmalloc SixteenByteAlign demo_env demo_init 0x200000) = Some 0x42200000 \<and>
   jumboPoolList (ret_state (ffmalloc SixteenByteAlign demo_env demo_init 0x200000)) = [9] \<and>
   pool_start (pools (ret_state (ffmalloc SixteenByteAlign demo_env demo_init 0x200000)) 9)
     = 0x42200000 \<and>
   pool_end (pools (ret_state (ffmalloc SixteenByteAlign demo_env demo_init 0x200000)) 9)
     = 0x42400000 \<and>
   nextFreeIndex (pools (ret_state (ffmalloc SixteenByteAlign demo_env demo_init 0x200000)) 9)
     = SIZE_MAX - 1 \<and>
   ffmalloc_usable_size (ret_state (ffmalloc SixteenByteAlign demo_env demo_init 0x200000)) 0x42200000
     = Inr 0x200000 \<and>
   ffmalloc SixteenByteAlign demo_env demo_init 0x1000 =
     bindF (ffmalloc_large SixteenByteAlign demo_env demo_init 0x1000 16)
       (\<lambda>(allocation, st2). Inr (allocation, if allocation = 0 then st2\<lparr>errno := ENOMEM\<rparr> else st2)) \<and>
   ffmemalign_internal SixteenByteAlign demo_env demo_init 0x1000 0x200000 =
     ffmalloc_jumbo demo_env demo_init 0x200000 \<and>
   ffaligned_alloc SixteenByteAlign demo_env demo_init 0x1000 0x200000 =
     ffmalloc_jumbo demo_env demo_init 0x200000"
proof -
  note t = size_class_dispatch [where st = demo_init and b = SixteenByteAlign and e = demo_env
      and alignment = "0x1000" and sz = "0x200000", OF demo_init_fields(1)]
  note t1 = t [where ?size0.0 = "0x200000"] and t2 = t [where ?size0.0 = "0x1000"]
  have g: "os_mmap demo_env (poolHighWater demo_init) (ALIGN_TO 0x200000 PAGE_SIZE) = MAP_OK"
    "stemIndex (poolHighWater demo_init) < STEM_COUNT"
    "stemIndex (poolHighWater demo_init + ALIGN_TO 0x200000 PAGE_SIZE) < STEM_COUNT"
    by (simp_all add: demo_env_sel demo_init_fields ALIGN_TO_def stemIndex_def const_defs)
  with t1 obtain st' where
    j: "ffmalloc_jumbo demo_env demo_init 0x200000 = Inr (0x42200000, st')"
    by (auto simp: demo_init_fields)
  with t1 have p: "pool_start (pools st' 9) = 0x42200000"
    "pool_end (pools st' 9) = 0x42200000 + ALIGN_TO 0x200000 PAGE_SIZE"
    "nextFreeIndex (pools st' 9) = SIZE_MAX - 1" "jumboPoolList st' = [9]"
    "ffmalloc_usable_size st' 0x42200000 = Inr (ALIGN_TO 0x200000 PAGE_SIZE)"
    by (simp_all add: demo_init_md demo_init_fields)
  have m: "ffmalloc SixteenByteAlign demo_env demo_init 0x200000 = Inr (0x42200000, st')"
    using t1 j by (simp add: const_defs)
  have d: "ffmalloc SixteenByteAlign demo_env demo_init 0x1000 =
     bindF (ffmalloc_large SixteenByteAlign demo_env demo_init 0x1000 16)
       (\<lambda>(allocation, st2). Inr (allocation, if allocation = 0 then st2\<lparr>errno := ENOMEM\<rparr> else st2))"
    using t2 by (simp add: const_defs)
  have i: "ffmemalign_internal SixteenByteAlign demo_env demo_init 0x1000 0x200000 =
     ffmalloc_jumbo demo_env demo_init 0x200000"
    "ffaligned_alloc SixteenByteAlign demo_env demo_init 0x1000 0x200000 =
     ffmalloc_jumbo demo_env demo_init 0x200000"
    using t1 popcount_pow2 [of 12] by (simp_all add: const_defs)
  from m p d i show ?thesis
    by (simp add: ret_val_def ret_state_def ALIGN_TO_def const_defs)
qed

text \<open>
  The claim as stated fails for the aligned entry points: \<^verbatim>\<open>ffaligned_alloc(16, POOL_SIZE - 2048)\<close>
  has reached the threshold \<^verbatim>\<open>POOL_SIZE - HALF_PAGE\<close>, and is served from the large pool 1; no
  jumbo pool is created.
\<close>

theorem aligned_alloc_near_pool_size_is_large:
  "POOL_SIZE - HALF_PAGE \<le> ALIGN_SIZE SixteenByteAlign 0x1FF800 \<and>
   ffaligned_alloc SixteenByteAlign demo_env demo_init 16 0x1FF800
     = ffmalloc_large SixteenByteAlign demo_env demo_init 0x1FF800 16 \<and>
   ret_val (ffaligned_alloc SixteenByteAlign demo_env demo_init 16 0x1FF800) = Some 0x41200000 \<and>
   jumboPoolList (ret_state (ffaligned_alloc SixteenByteAlign demo_env demo_init 16 0x1FF800)) = [] \<and>
   nextFreeIndex (pools (ret_state (ffaligned_alloc SixteenByteAlign demo_env demo_init 16 0x1FF800)) 1) = 1"
proof -
  have a: "ffaligned_alloc SixteenByteAlign demo_env demo_init 16 0x1FF800
     = ffmalloc_large SixteenByteAlign demo_env demo_init 0x1FF800 16"
    using popcount_pow2 [of 4] by (simp add: ffaligned_alloc_def const_defs)
  have b: "ffmalloc_large SixteenByteAlign demo_env demo_init 0x1FF800 16 =
     Inr (0x41200000, upd_pool 1 (\<lambda>_. (fresh_large_pool 0x41200000)\<lparr>nextFreePage := 0x41400000,
            tracking := Allocations ((\<lambda>_. 0)(0 := 0x41200000, 1 := 0x41400000)), nextFreeIndex := 1\<rparr>) demo_init)"
    by (simp add: ffmalloc_large_def get_large_list_index_def demo_env_sel MAX_LARGE_LISTS_def
        demo_init_fields demo_init_pools fresh_large_pool_def ALIGN_TO_def ffmalloc_large_from_pool_def
        allocations_of_def LARGE_ENTRIES_def const_defs Let_def)
  show ?thesis
    by (simp add: a b ret_val_def ret_state_def upd_pool_def demo_init_fields const_defs)
qed

subsection \<open>ffcalloc: the overflow guard\<close>


text \<open>
  Claim C10 says that the overflow guard of \<^verbatim>\<open>ffcalloc\<close> is well defined for every pair of
  arguments, \<^verbatim>\<open>nmemb == 0\<close> included, as the guard of \<^verbatim>\<open>ffreallocarray\<close> is. The code
  evaluates \<^verbatim>\<open>SIZE_MAX / nmemb\<close> before anything else: with \<^verbatim>\<open>nmemb == 0\<close> every call of
  \<^verbatim>\<open>ffcalloc\<close> is an integer division by zero, whatever the size and the state.
\<close>

theorem ffcalloc_zero_nmemb_divides_by_zero:
  "ffcalloc b e st 0 sz = Inl DivisionByZero"
  by (simp add: ffcalloc_def)

text \<open>The sibling tests \<^verbatim>\<open>nmemb\<close> first and goes on to \<^verbatim>\<open>ffrealloc(ptr, 0)\<close>.\<close>

lemma ffreallocarray_zero_nmemb: "ffreallocarray b e st ptr 0 sz = ffrealloc b e st ptr 0"
  by (simp add: ffreallocarray_def)




subsection \<open>The three runs, step by step\<close>

lemma one_less_minus_two: "(1 :: 64 word) < - 2"
  by (simp add: word_less_def)

lemma pools_upd_pool: "pools (upd_pool p f st) p = f (pools st p)"
  by (simp add: upd_pool_def)

lemma if_eq_fun_upd: "(\<lambda>i. if i = k then g i else f i) = f(k := g k)"
  by auto

lemmas large_alloc_defs = ffmalloc_large_def get_large_list_index_def demo_env_sel MAX_LARGE_LISTS_def
  ALIGN_TO_def ffmalloc_large_from_pool_def allocations_of_def LARGE_ENTRIES_def Let_def

lemmas large_find_defs = tree_defs demo_init_eq upd_pool_def fresh_large_pool_def find_large_ptr_def
  allocations_of_def const_defs Let_def one_less_minus_two

lemma demo_malloc4096:
  "ffmalloc SixteenByteAlign demo_env demo_init 0x1000
     = Inr (0x41200000, upd_pool (Suc 0) (\<lambda>_. pool1_alloc4096) demo_init)"
  by (simp add: ffmalloc_def large_alloc_defs demo_init_fields demo_init_pools fresh_large_pool_def
      pool1_alloc4096_def const_defs)

lemma demo_alloc4096_eq: "demo_alloc4096 = upd_pool (Suc 0) (\<lambda>_. pool1_alloc4096) demo_init"
  by (simp add: demo_alloc4096_def demo_malloc4096 ret_state_def)

lemma demo_free4096:
  "fffree demo_env (upd_pool (Suc 0) (\<lambda>_. pool1_alloc4096) demo_init) 0x41200000
     = Inr (upd_pool (Suc 0) (\<lambda>_. pool1_freed4096) demo_init)"
  by (simp add: fffree_def large_find_defs pool1_alloc4096_def pool1_freed4096_def
      free_large_pointer_def MIN_PAGES_TO_FREE_def demo_env_sel if_eq_fun_upd)

lemma demo_freed4096_eq: "demo_freed4096 = upd_pool (Suc 0) (\<lambda>_. pool1_freed4096) demo_init"
  by (simp add: demo_freed4096_def demo_alloc4096_eq demo_free4096 state_of_def)

lemma demo_free_tagged:
  "fffree demo_env (upd_pool (Suc 0) (\<lambda>_. pool1_freed4096) demo_init) 0x41200003
     = Inr (upd_pool (Suc 0) (\<lambda>_. pool1_freed4096) demo_init)"
  by (simp add: fffree_def large_find_defs pool1_freed4096_def
      free_large_pointer_def MIN_PAGES_TO_FREE_def demo_env_sel if_eq_fun_upd)

lemma demo_realloc_tagged:
  "ffrealloc SixteenByteAlign demo_env (upd_pool (Suc 0) (\<lambda>_. pool1_freed4096) demo_init) 0x41200003 100
     = Inr (0x41200003, upd_pool (Suc 0) (\<lambda>_. pool1_freed4096) demo_init)"
  by (simp add: ffrealloc_def large_find_defs pool1_freed4096_def)

lemma demo_usable_tagged:
  "ffmalloc_usable_size (upd_pool (Suc 0) (\<lambda>_. pool1_freed4096) demo_init) 0x41200003 = Inr 4093"
  by (simp add: ffmalloc_usable_size_def large_find_defs pool1_freed4096_def)

lemma demo_aligned_alloc_odd:
  "ffaligned_alloc SixteenByteAlign demo_env demo_init 8 2056
     = Inr (0x41200000, upd_pool (Suc 0) (\<lambda>_. pool1_odd) demo_init)"
  by (simp add: ffaligned_alloc_def popcount_pow2 [of 3, simplified] large_alloc_defs
      demo_init_fields demo_init_pools fresh_large_pool_def pool1_odd_def const_defs)

lemma demo_odd_size_eq: "demo_odd_size = upd_pool (Suc 0) (\<lambda>_. pool1_odd) demo_init"
  by (simp add: demo_odd_size_def demo_aligned_alloc_odd ret_state_def)

lemma demo_malloc_after_odd:
  "ffmalloc SixteenByteAlign demo_env (upd_pool (Suc 0) (\<lambda>_. pool1_odd) demo_init) 3000
     = Inr (0x41200810, upd_pool (Suc 0) (\<lambda>_. pool1_after_odd) demo_init)"
  by (simp add: ffmalloc_def large_alloc_defs demo_init_fields demo_init_pools fresh_large_pool_def
      pool1_odd_def pool1_after_odd_def const_defs upd_pool_def)

lemma demo_after_odd_eq: "demo_after_odd = upd_pool (Suc 0) (\<lambda>_. pool1_after_odd) demo_init"
  by (simp add: demo_after_odd_def demo_odd_size_eq demo_malloc_after_odd ret_state_def)

lemma demo_usable_after_odd:
  "ffmalloc_usable_size (upd_pool (Suc 0) (\<lambda>_. pool1_after_odd) demo_init) 0x41200810 = Inr 0"
  by (simp add: ffmalloc_usable_size_def large_find_defs pool1_after_odd_def)

lemma demo_realloc_after_odd:
  "ffrealloc SixteenByteAlign demo_env (upd_pool (Suc 0) (\<lambda>_. pool1_after_odd) demo_init) 0x41200810 100
     = Inl (Abort ''realloc bad large ptr'')"
  by (simp add: ffrealloc_def large_find_defs pool1_after_odd_def)

lemma demo_free_after_odd:
  "fffree demo_env (upd_pool (Suc 0) (\<lambda>_. pool1_after_odd) demo_init) 0x41200810
     = Inl (Abort ''free bad large ptr'')"
  by (simp add: fffree_def large_find_defs pool1_after_odd_def)

lemma demo_memalign_wide:
  "ret_val (ffmemalign SixteenByteAlign demo_env demo_init 0x800000 0x1000) = Some 0x42800000"
  "pools demo_wide_align 9 = pool9_wide"
  "largePoolList demo_wide_align 0 = [1, 9]"
  by (simp_all add: demo_wide_align_def ffmemalign_def ffmemalign_internal_def
      popcount_pow2 [of 23, simplified] large_alloc_defs demo_init_fields demo_init_pools
      fresh_large_pool_def pool9_wide_def const_defs ret_val_def ret_state_def os_defs new_pool_def
      create_largepagepool_def tree_defs demo_init_eq upd_pool_def zero_pool_def
      MAX_POOLS_PER_LIST_def ffmetadata_alloc_def)

lemma demo_usable_wide: "ffmalloc_usable_size demo_wide_align 0x42800000 = Inr 0"
  by (simp add: demo_wide_align_def ffmemalign_def ffmemalign_internal_def
      popcount_pow2 [of 23, simplified] large_alloc_defs demo_init_fields demo_init_pools
      fresh_large_pool_def const_defs ret_state_def os_defs new_pool_def
      create_largepagepool_def tree_defs demo_init_eq upd_pool_def zero_pool_def
      MAX_POOLS_PER_LIST_def ffmalloc_usable_size_def ffmetadata_alloc_def)


subsection \<open>Pointers that are not live allocations\<close>

text \<open>
  Claim C4 says that \<^verbatim>\<open>fffree\<close> and \<^verbatim>\<open>ffrealloc\<close> abort on every pointer of a large pool that
  matches no live boundary entry. \<^verbatim>\<open>find_large_ptr\<close> compares the pointer with the raw entry,
  status bits included. After \<^verbatim>\<open>p = ffmalloc(4096)\<close> (\<open>p = 0x41200000\<close>) and \<^verbatim>\<open>fffree(p)\<close> the
  entry of \<open>p\<close> is \<open>p + 3\<close> (freed and unmapped), the only other entry is the end boundary
  \<open>0x41201000\<close>, and no allocation is live in the pool. The pointer \<open>p + 3\<close> then equals the dead
  entry: \<^verbatim>\<open>fffree(p + 3)\<close> returns and leaves the state as it was, and \<^verbatim>\<open>ffrealloc(p + 3, 100)\<close>
  returns \<open>p + 3\<close>; neither aborts.
\<close>

theorem free_of_tagged_freed_pointer_returns:
  "ret_val (ffmalloc SixteenByteAlign demo_env demo_init 0x1000) = Some 0x41200000 \<and>
   fffree demo_env demo_alloc4096 0x41200000 = Inr demo_freed4096 \<and>
   pools demo_freed4096 1 = pool1_freed4096 \<and>
   boundaries pool1_freed4096 = [0x41200000, 0x41201000] \<and>
   fffree demo_env demo_freed4096 0x41200003 = Inr demo_freed4096 \<and>
   ffrealloc SixteenByteAlign demo_env demo_freed4096 0x41200003 100
     = Inr (0x41200003, demo_freed4096)"
proof -
  have "boundaries pool1_freed4096 = [0x41200000, 0x41201000]"
    by (simp add: boundaries_def pool1_freed4096_def allocations_of_def fresh_large_pool_def
        upt_rec)
  then show ?thesis
    by (simp add: demo_malloc4096 ret_val_def demo_alloc4096_eq demo_free4096 demo_freed4096_eq
        demo_free_tagged demo_realloc_tagged pools_upd_pool)
qed

text \<open>
  Claim C6 says that \<^verbatim>\<open>ffmalloc_usable_size\<close> returns the boundary difference for a live large
  allocation. In the 16-byte build, \<^verbatim>\<open>ffaligned_alloc(8, 2056)\<close> passes the size to
  \<^verbatim>\<open>ffmalloc_large\<close> without \<^verbatim>\<open>ALIGN_SIZE\<close> and leaves \<^verbatim>\<open>nextFreePage\<close> at \<open>0x41200808\<close>, which
  is not a multiple of 16. The next \<^verbatim>\<open>ffmalloc(3000)\<close> returns
  \<^verbatim>\<open>ALIGN_TO(nextFreePage, 16)\<close> \<open>= 0x41200810\<close>, but stores the aligned address only when
  \<^verbatim>\<open>alignment > MIN_ALIGNMENT\<close>, so the metadata keeps \<open>0x41200808\<close>. The pointer returned is
  in no entry, and its usable size is reported as 0 while it is live.
\<close>

theorem usable_size_of_live_large_allocation_is_zero:
  "ret_val (ffaligned_alloc SixteenByteAlign demo_env demo_init 8 2056) = Some 0x41200000 \<and>
   ret_val (ffmalloc SixteenByteAlign demo_env demo_odd_size 3000) = Some 0x41200810 \<and>
   pools demo_after_odd 1 = pool1_after_odd \<and>
   boundaries pool1_after_odd = [0x41200000, 0x41200808, 0x412013D0] \<and>
   ffmalloc_usable_size demo_after_odd 0x41200810 = Inr 0"
proof -
  have "boundaries pool1_after_odd = [0x41200000, 0x41200808, 0x412013D0]"
    by (simp add: boundaries_def pool1_after_odd_def allocations_of_def fresh_large_pool_def
        upt_rec)
  then show ?thesis
    by (simp add: demo_aligned_alloc_odd ret_val_def demo_odd_size_eq demo_malloc_after_odd
        demo_after_odd_eq demo_usable_after_odd pools_upd_pool)
qed

text \<open>
  Claim C5 says that \<^verbatim>\<open>ffrealloc(ptr, size)\<close> returns \<open>ptr\<close> for every live allocation when the
  new size fits. For the live pointer \<open>0x41200810\<close> of the same run, whose allocation has
  3008 bytes, \<^verbatim>\<open>ffrealloc(ptr, 100)\<close> does not find the pointer in the metadata and aborts;
  so does \<^verbatim>\<open>fffree(ptr)\<close>.
\<close>

theorem realloc_of_live_large_allocation_aborts:
  "ret_val (ffmalloc SixteenByteAlign demo_env demo_odd_size 3000) = Some 0x41200810 \<and>
   ffrealloc SixteenByteAlign demo_env demo_after_odd 0x41200810 100
     = Inl (Abort ''realloc bad large ptr'') \<and>
   fffree demo_env demo_after_odd 0x41200810 = Inl (Abort ''free bad large ptr'')"
  by (simp add: ret_val_def demo_odd_size_eq demo_malloc_after_odd demo_after_odd_eq
      demo_realloc_after_odd demo_free_after_odd)

text \<open>
  Claim C9 says that the boundary entries of a large pool increase strictly in every reachable
  state. \<^verbatim>\<open>ffmalloc_large\<close> tests that the aligned request fits before it allocates from a pool
  of its list, but not for the pool it has just created. \<^verbatim>\<open>ffmemalign(8 MiB, 4096)\<close> as the
  first request finds no room in pool 1, creates pool 9 at \<open>[0x42200000, 0x42400000)\<close> and
  allocates from it: the address returned, \<open>0x42800000\<close>, is behind the end of the pool, entry
  0 becomes \<open>0x42800000\<close>, and the slack rule sets entry 1 to the end of the pool,
  \<open>0x42400000\<close>. The entries of this pool decrease.
\<close>

theorem fresh_pool_boundaries_not_increasing:
  "ret_val (ffmemalign SixteenByteAlign demo_env demo_init 0x800000 0x1000) = Some 0x42800000 \<and>
   pools demo_wide_align 9 = pool9_wide \<and>
   largePoolList demo_wide_align 0 = [1, 9] \<and>
   boundaries pool9_wide = [0x42800000, 0x42400000] \<and>
   \<not> boundaries_sorted pool9_wide"
proof -
  have "boundaries pool9_wide = [0x42800000, 0x42400000]"
    by (simp add: boundaries_def pool9_wide_def allocations_of_def
        upt_rec)
  then show ?thesis
    by (simp add: demo_memalign_wide boundaries_sorted_def)
qed

subsection \<open>Powers of two and multiples\<close>








subsection \<open>Page alignment of the mappings\<close>











subsection \<open>Rounding a size up\<close>










subsection \<open>The aligned entry points beyond the small bins\<close>










subsection \<open>Small requests in the concrete process\<close>








lemma demo_aligned_alloc_16:
  "ffaligned_alloc SixteenByteAlign demo_env demo_init 16 0x1000
     = Inr (0x41200000, upd_pool (Suc 0) (\<lambda>_. pool1_alloc4096) demo_init)"
  by (simp add: ffaligned_alloc_def popcount_pow2 [of 4, simplified] ffmalloc_large_def get_large_list_index_def demo_env_sel MAX_LARGE_LISTS_def
  ALIGN_TO_def ffmalloc_large_from_pool_def allocations_of_def LARGE_ENTRIES_def Let_def
      demo_init_fields demo_init_pools fresh_large_pool_def pool1_alloc4096_def const_defs)


lemma popcount_zero: "FFPOPCOUNT64 0 = 0"
  by (simp add: FFPOPCOUNT64_def)






subsection \<open>The aligned entry points\<close>






subsection \<open>Requests of size zero\<close>




end
